theory Spec2Isabelle
  imports Complex_Main
begin

section \<open>Elements and the DOM operations the controller calls\<close>

text \<open>
  The controller of \<^verbatim>\<open>src/table.js\<close> owns one \<^verbatim>\<open>table\<close> element inside a wrapper
  \<^verbatim>\<open>div\<close>. An element built by the factory \<^verbatim>\<open>create\<close> is a tree of tag name, class
  list, attributes and children. The only attribute the controller ever sets is
  \<^verbatim>\<open>contenteditable\<close>, whose value is a boolean.
\<close>

datatype element =
  Element (tagName: string) (classList: "string list")
          (attributes: "(string \<times> bool) list") (children: "element list")

text \<open>The constant \<^verbatim>\<open>CSS\<close> of the module.\<close>

abbreviation CSS_table :: string where "CSS_table \<equiv> ''tc-table''"
abbreviation CSS_inputField :: string where "CSS_inputField \<equiv> ''tc-table__inp''"
abbreviation CSS_cell :: string where "CSS_cell \<equiv> ''tc-table__cell''"
abbreviation CSS_wrapper :: string where "CSS_wrapper \<equiv> ''tc-table__wrap''"
abbreviation CSS_area :: string where "CSS_area \<equiv> ''tc-table__area''"
abbreviation CSS_highlight :: string where "CSS_highlight \<equiv> ''tc-table__highlight''"

text \<open>
  Modelled from the spec: the element factory \<^verbatim>\<open>create\<close> is imported from
  \<^verbatim>\<open>./documentUtils\<close>, which is not among the sources. The specification gives its contract
  as \<^verbatim>\<open>create(tagName, classList, attributes?, children?) -> Element\<close>; an absent
  (\<^verbatim>\<open>null\<close>) argument contributes nothing.
\<close>

definition create ::
  "string \<Rightarrow> string list \<Rightarrow> (string \<times> bool) list option \<Rightarrow> element list option \<Rightarrow> element" where
  "create tag classes attrs kids =
     Element tag classes (case attrs of None \<Rightarrow> [] | Some a \<Rightarrow> a)
                         (case kids of None \<Rightarrow> [] | Some k \<Rightarrow> k)"

text \<open>\<^verbatim>\<open>classList.add\<close> and \<^verbatim>\<open>classList.remove\<close>: a class list holds a token once.\<close>

definition classList_add :: "string \<Rightarrow> string list \<Rightarrow> string list" where
  "classList_add k ks = (if k \<in> set ks then ks else ks @ [k])"

definition classList_remove :: "string \<Rightarrow> string list \<Rightarrow> string list" where
  "classList_remove k ks = filter (\<lambda>x. x \<noteq> k) ks"

text \<open>The exceptions that the modelled code can raise.\<close>

datatype exn = IndexSizeError | TypeError | ReferenceError

subsection \<open>Numbers\<close>

text \<open>
  A number of JavaScript: \<^verbatim>\<open>NaN\<close>, a finite number, or one of the two infinities. The
  finite numbers are taken as real numbers (every double is one) and their sum as the
  exact sum. The statements below that name an index are about the sum of an integer and
  0 or 1, which is exact for doubles too. The double sum of an integer and a fraction
  between 0 and 1 can round; it stays between the integer and its successor, as the exact
  sum does, and which of the two it truncates to is not modelled.
\<close>

datatype jsnum = NaN | Finite real | PosInfinity | NegInfinity

definition js_int :: "int \<Rightarrow> jsnum" where
  "js_int k = Finite (of_int k)"

text \<open>\<^verbatim>\<open>Math.max\<close> and \<^verbatim>\<open>Math.min\<close> of two numbers: \<^verbatim>\<open>NaN\<close> when one of them is.\<close>

fun Math_max :: "jsnum \<Rightarrow> jsnum \<Rightarrow> jsnum" where
  "Math_max NaN y = NaN"
| "Math_max x NaN = NaN"
| "Math_max PosInfinity y = PosInfinity"
| "Math_max x PosInfinity = PosInfinity"
| "Math_max NegInfinity y = y"
| "Math_max x NegInfinity = x"
| "Math_max (Finite x) (Finite y) = Finite (max x y)"

fun Math_min :: "jsnum \<Rightarrow> jsnum \<Rightarrow> jsnum" where
  "Math_min NaN y = NaN"
| "Math_min x NaN = NaN"
| "Math_min NegInfinity y = NegInfinity"
| "Math_min x NegInfinity = NegInfinity"
| "Math_min PosInfinity y = y"
| "Math_min x PosInfinity = x"
| "Math_min (Finite x) (Finite y) = Finite (min x y)"

text \<open>The operator \<^verbatim>\<open>+\<close> on two numbers.\<close>

fun js_add :: "jsnum \<Rightarrow> jsnum \<Rightarrow> jsnum" where
  "js_add NaN y = NaN"
| "js_add x NaN = NaN"
| "js_add PosInfinity NegInfinity = NaN"
| "js_add NegInfinity PosInfinity = NaN"
| "js_add PosInfinity y = PosInfinity"
| "js_add x PosInfinity = PosInfinity"
| "js_add NegInfinity y = NegInfinity"
| "js_add x NegInfinity = NegInfinity"
| "js_add (Finite x) (Finite y) = Finite (x + y)"

text \<open>
  The conversion of a number to the \<^verbatim>\<open>long\<close> that \<^verbatim>\<open>insertRow\<close> and \<^verbatim>\<open>insertCell\<close> of
  the DOM take: \<^verbatim>\<open>NaN\<close> and the infinities give 0, a finite number is truncated towards 0.
  (The wrap-around of the conversion starts at \<open>2 ^ 31\<close>, beyond the length of any
  collection of rows or cells, which is a \<^verbatim>\<open>long\<close> itself.)
\<close>

fun to_long :: "jsnum \<Rightarrow> int" where
  "to_long (Finite x) = (if 0 \<le> x then \<lfloor>x\<rfloor> else \<lceil>x\<rceil>)"
| "to_long _ = 0"

subsection \<open>Collections\<close>

text \<open>
  \<^verbatim>\<open>HTMLTableElement.insertRow(index)\<close> and \<^verbatim>\<open>HTMLTableRowElement.insertCell(index)\<close>
  follow the same rule: an index below \<open>-1\<close> or above the length of the collection raises
  \<^verbatim>\<open>IndexSizeError\<close>; \<open>-1\<close> and the length itself append; any other index inserts before
  the element at that index. The result is the position of the new element and the new
  collection.
\<close>

definition dom_insert :: "int \<Rightarrow> 'a \<Rightarrow> 'a list \<Rightarrow> exn + (nat \<times> 'a list)" where
  "dom_insert index x xs =
     (if index < -1 \<or> int (length xs) < index then Inl IndexSizeError
      else if index = -1 \<or> index = int (length xs) then Inr (length xs, xs @ [x])
      else Inr (nat index, take (nat index) xs @ x # drop (nat index) xs))"

text \<open>
  \<^verbatim>\<open>deleteRow(index)\<close> and \<^verbatim>\<open>deleteCell(index)\<close>: an index below \<open>-1\<close>, or at or above the
  length, raises \<^verbatim>\<open>IndexSizeError\<close>; \<open>-1\<close> removes the last element, or nothing from an
  empty collection; any other index removes the element there. The result is the removed
  element, if any, and the new collection.
\<close>

definition dom_delete :: "int \<Rightarrow> 'a list \<Rightarrow> exn + ('a option \<times> 'a list)" where
  "dom_delete index xs =
     (if index < -1 \<or> int (length xs) \<le> index then Inl IndexSizeError
      else if index = -1 then
        (if xs = [] then Inr (None, []) else Inr (Some (last xs), butlast xs))
      else Inr (Some (xs ! nat index), take (nat index) xs @ drop (Suc (nat index)) xs))"

section \<open>The state of a controller\<close>

text \<open>
  A \<^verbatim>\<open>td\<close> element has an identity (a number): the selection is a reference to one, and
  it survives the removal of the cell from its row. A \<^verbatim>\<open>tr\<close> element is its \<^verbatim>\<open>cells\<close>
  collection, the list of its \<^verbatim>\<open>td\<close> children.
\<close>

type_synonym tr = "nat list"

text \<open>
  An element of the page that an event can name as its target or that can have the focus:
  the wrapper, the table, a cell, or the descendant of a cell reached by a path of child
  positions.
\<close>

datatype node = Wrapper | TableEl | Cell nat | Inner nat "nat list"

text \<open>A value of the host page, as far as the controller passes one on.\<close>

datatype jsval = Undefined | Str string | Num int

text \<open>
  The \<^verbatim>\<open>CustomEvent\<close> handed to \<^verbatim>\<open>dispatchEvent\<close>: its type, the \<^verbatim>\<open>side\<close> field of its
  \<^verbatim>\<open>detail\<close>, its \<^verbatim>\<open>bubbles\<close> flag and the element it is dispatched on.
\<close>

record custom_event =
  ev_type :: string
  ev_side :: jsval
  ev_bubbles :: bool
  ev_on :: node

text \<open>
  The fields of the class \<^verbatim>\<open>Table\<close> (\<open>selectedCell\<close> is the field \<^verbatim>\<open>_selectedCell\<close>),
  together with the part of the page they refer to:
  \<^item> \<open>rows\<close>: the \<^verbatim>\<open>rows\<close> collection of \<^verbatim>\<open>this._table\<close>, in order;
  \<^item> \<open>detached\<close>: the rows that \<^verbatim>\<open>deleteRow\<close> has removed from the table; they stay alive,
    with their cells, as long as something refers to them;
  \<^item> \<open>tds\<close>: the class list and subtree of every \<^verbatim>\<open>td\<close>, by identity;
  \<^item> \<open>activeElement\<close>: the element of the page that has the focus;
  \<^item> \<open>fresh\<close>: the identity the next created \<^verbatim>\<open>td\<close> gets;
  \<^item> \<open>dispatched\<close>: the custom events dispatched to the host so far.
\<close>

record table =
  readOnly :: bool
  numberOfColumns :: int
  numberOfRows :: int
  rows :: "tr list"
  detached :: "tr list"
  tds :: "nat \<Rightarrow> element"
  selectedCell :: "nat option"
  activeElement :: "node option"
  fresh :: nat
  dispatched :: "custom_event list"

text \<open>\<^verbatim>\<open>_createTableWrapper\<close>: the wrapper \<^verbatim>\<open>div\<close> around an empty \<^verbatim>\<open>table\<close>.\<close>

definition createTableWrapper :: element where
  "createTableWrapper =
     create ''div'' [CSS_wrapper] None (Some [create ''table'' [CSS_table] None None])"

text \<open>
  The constructor: no columns, no rows, an empty table, no selection. (The listeners that
  \<^verbatim>\<open>_attachEvents\<close> registers are the subject of the section on events.)
\<close>

definition new_Table :: "bool \<Rightarrow> table" where
  "new_Table ro =
     \<lparr>readOnly = ro, numberOfColumns = 0, numberOfRows = 0, rows = [], detached = [],
      tds = (\<lambda>_. Element ''td'' [] [] []), selectedCell = None, activeElement = None,
      fresh = 0, dispatched = []\<rparr>"

subsection \<open>Where a cell is\<close>

text \<open>The position of the first element of a list that satisfies a test.\<close>

fun find_pos :: "('a \<Rightarrow> bool) \<Rightarrow> 'a list \<Rightarrow> nat option" where
  "find_pos P [] = None"
| "find_pos P (x # xs) = (if P x then Some 0 else map_option Suc (find_pos P xs))"

text \<open>
  The \<^verbatim>\<open>tr\<close> that is the parent of a cell: a row of the table, a detached row, or none
  when the cell has been removed from its row.
\<close>

datatype row_ref = Attached nat | Detached nat

definition closest_tr :: "table \<Rightarrow> nat \<Rightarrow> row_ref option" where
  "closest_tr s c =
     (case find_pos (\<lambda>r. c \<in> set r) (rows s) of
        Some i \<Rightarrow> Some (Attached i)
      | None \<Rightarrow> map_option Detached (find_pos (\<lambda>r. c \<in> set r) (detached s)))"

text \<open>
  \<^verbatim>\<open>rowIndex\<close> of a \<^verbatim>\<open>tr\<close>: its position in the \<^verbatim>\<open>rows\<close> collection of its table, and
  \<open>-1\<close> when it is in no table.
\<close>

fun rowIndex :: "row_ref \<Rightarrow> int" where
  "rowIndex (Attached i) = int i"
| "rowIndex (Detached j) = -1"

fun row_cells :: "table \<Rightarrow> row_ref \<Rightarrow> tr" where
  "row_cells s (Attached i) = rows s ! i"
| "row_cells s (Detached j) = detached s ! j"

text \<open>
  \<^verbatim>\<open>cellIndex\<close> of a \<^verbatim>\<open>td\<close>: its position in the \<^verbatim>\<open>cells\<close> collection of its parent row,
  and \<open>-1\<close> when it has no parent row.
\<close>

definition cellIndex :: "table \<Rightarrow> nat \<Rightarrow> int" where
  "cellIndex s c =
     (case closest_tr s c of
        None \<Rightarrow> -1
      | Some r \<Rightarrow> (case find_pos (\<lambda>x. x = c) (row_cells s r) of
                    None \<Rightarrow> -1 | Some k \<Rightarrow> int k))"

section \<open>The controller\<close>

subsection \<open>Selection\<close>

text \<open>The getter \<^verbatim>\<open>selectedCell\<close> returns the field.\<close>

definition get_selectedCell :: "table \<Rightarrow> nat option" where
  "get_selectedCell s = selectedCell s"

definition td_classList_remove :: "string \<Rightarrow> nat \<Rightarrow> table \<Rightarrow> table" where
  "td_classList_remove k c s =
     s\<lparr>tds := (tds s)(c := Element (tagName (tds s c)) (classList_remove k (classList (tds s c)))
                                  (attributes (tds s c)) (children (tds s c)))\<rparr>"

definition td_classList_add :: "string \<Rightarrow> nat \<Rightarrow> table \<Rightarrow> table" where
  "td_classList_add k c s =
     s\<lparr>tds := (tds s)(c := Element (tagName (tds s c)) (classList_add k (classList (tds s c)))
                                  (attributes (tds s c)) (children (tds s c)))\<rparr>"

text \<open>
  The setter \<^verbatim>\<open>selectedCell\<close>: takes the highlight off the cell the field refers to, stores
  the new reference, and puts the highlight on the new cell unless it is \<^verbatim>\<open>null\<close>.
\<close>

definition set_selectedCell :: "nat option \<Rightarrow> table \<Rightarrow> table" where
  "set_selectedCell cell s =
     (let s1 = (case selectedCell s of
                  Some old \<Rightarrow> td_classList_remove CSS_highlight old s
                | None \<Rightarrow> s);
          s2 = s1\<lparr>selectedCell := cell\<rparr>
      in case selectedCell s2 of
           Some new \<Rightarrow> td_classList_add CSS_highlight new s2
         | None \<Rightarrow> s2)"

text \<open>
  The getter \<^verbatim>\<open>selectedRow\<close>: \<^verbatim>\<open>null\<close> without a selected cell, else the closest \<^verbatim>\<open>tr\<close>
  ancestor of the selected cell.
\<close>

definition selectedRow :: "table \<Rightarrow> row_ref option" where
  "selectedRow s =
     (case get_selectedCell s of None \<Rightarrow> None | Some c \<Rightarrow> closest_tr s c)"

subsection \<open>Filling cells and rows\<close>

text \<open>\<^verbatim>\<open>_createContenteditableArea\<close>.\<close>

definition createContenteditableArea :: "table \<Rightarrow> element" where
  "createContenteditableArea s =
     create ''div'' [CSS_inputField] (Some [(''contenteditable'', \<not> readOnly s)]) None"

text \<open>
  \<^verbatim>\<open>_fillCell\<close>: adds the cell class to the \<^verbatim>\<open>td\<close> and appends an area \<^verbatim>\<open>div\<close> that holds
  the input field.
\<close>

definition fillCell :: "nat \<Rightarrow> table \<Rightarrow> table" where
  "fillCell cell s =
     (let s1 = td_classList_add CSS_cell cell s;
          content = createContenteditableArea s1;
          td = tds s1 cell
      in s1\<lparr>tds := (tds s1)(cell := Element (tagName td) (classList td) (attributes td)
                      (children td @ [create ''div'' [CSS_area] None (Some [content])]))\<rparr>)"

text \<open>
  When the element that has the focus is removed from the page, inside a cell or a row
  that is, the focus goes to the body of the page: no element of the table has it.
\<close>

definition focus_in :: "table \<Rightarrow> nat list \<Rightarrow> bool" where
  "focus_in s cs =
     (case activeElement s of
        Some (Cell c) \<Rightarrow> c \<in> set cs
      | Some (Inner c p) \<Rightarrow> c \<in> set cs
      | _ \<Rightarrow> False)"

definition blur_removed :: "nat list \<Rightarrow> table \<Rightarrow> table" where
  "blur_removed cs s = (if focus_in s cs then s\<lparr>activeElement := None\<rparr> else s)"

text \<open>
  \<^verbatim>\<open>insertCell(index)\<close> on the row at position \<open>pos\<close> of the table: creates an empty \<^verbatim>\<open>td\<close>
  and inserts it by the rule of \<open>dom_insert\<close>. Reading a row beyond the collection gives
  \<^verbatim>\<open>undefined\<close>, and the call on it a \<^verbatim>\<open>TypeError\<close>.
\<close>

definition row_insertCell :: "nat \<Rightarrow> int \<Rightarrow> table \<Rightarrow> (exn + nat) \<times> table" where
  "row_insertCell pos index s =
     (if length (rows s) \<le> pos then (Inl TypeError, s)
      else case dom_insert index (fresh s) (rows s ! pos) of
             Inl e \<Rightarrow> (Inl e, s)
           | Inr (_, cs) \<Rightarrow>
               (Inr (fresh s),
                s\<lparr>rows := (rows s)[pos := cs],
                  tds := (tds s)(fresh s := Element ''td'' [] [] []),
                  fresh := Suc (fresh s)\<rparr>))"

text \<open>\<^verbatim>\<open>deleteCell(index)\<close> on the row at position \<open>pos\<close> of the table.\<close>

definition row_deleteCell :: "nat \<Rightarrow> int \<Rightarrow> table \<Rightarrow> exn option \<times> table" where
  "row_deleteCell pos index s =
     (if length (rows s) \<le> pos then (Some TypeError, s)
      else case dom_delete index (rows s ! pos) of
             Inl e \<Rightarrow> (Some e, s)
           | Inr (removed, cs) \<Rightarrow>
               (None, blur_removed (case removed of None \<Rightarrow> [] | Some c \<Rightarrow> [c])
                        (s\<lparr>rows := (rows s)[pos := cs]\<rparr>)))"

text \<open>
  \<^verbatim>\<open>_fillRow\<close>: the loop \<^verbatim>\<open>for (let i = 0; i < this._numberOfColumns; i++)\<close>, each round
  appending a cell to the row (\<^verbatim>\<open>insertCell()\<close> without an argument is \<^verbatim>\<open>insertCell(-1)\<close>)
  and filling it. The row is the one at position \<open>row\<close> of the table.
\<close>

function fillRow_loop :: "nat \<Rightarrow> nat \<Rightarrow> table \<Rightarrow> exn option \<times> table" where
  "fillRow_loop row i s =
     (if int i < numberOfColumns s then
        (case row_insertCell row (-1) s of
           (Inl e, s1) \<Rightarrow> (Some e, s1)
         | (Inr cell, s1) \<Rightarrow> fillRow_loop row (Suc i) (fillCell cell s1))
      else (None, s))"
  by pat_completeness auto
termination
proof (relation "measure (\<lambda>(row, i, s). nat (numberOfColumns s) - i)")
  show "wf (measure (\<lambda>(row, i, s). nat (numberOfColumns s) - i))" by simp
next
  fix row i s and x :: "exn + nat" and y cell
  assume lt: "int i < numberOfColumns s"
    and p: "(x, y) = row_insertCell row (- 1) s" and x: "x = Inr cell"
  have "numberOfColumns (snd (row_insertCell row (- 1) s)) = numberOfColumns s"
    by (simp add: row_insertCell_def split: sum.splits prod.splits)
  moreover have "y = snd (row_insertCell row (- 1) s)" using p by (metis snd_conv)
  ultimately have "numberOfColumns (fillCell cell y) = numberOfColumns s"
    by (simp add: fillCell_def td_classList_add_def Let_def)
  with lt show "((row, Suc i, fillCell cell y), (row, i, s))
        \<in> measure (\<lambda>(row, i, s). nat (numberOfColumns s) - i)"
    by simp
qed

definition fillRow :: "nat \<Rightarrow> table \<Rightarrow> exn option \<times> table" where
  "fillRow row s = fillRow_loop row 0 s"

subsection \<open>Inserting and deleting rows and columns\<close>

text \<open>
  A parameter with the default value \<open>0\<close>: \<open>None\<close> is a call without the argument. The
  first statement of \<^verbatim>\<open>insertRow\<close> and \<^verbatim>\<open>insertColumn\<close> is
  \<^verbatim>\<open>direction = Math.min(Math.max(direction, 0), 1)\<close>.
\<close>

definition clamp_direction :: "jsnum option \<Rightarrow> jsnum" where
  "clamp_direction direction =
     Math_min (Math_max (case direction of None \<Rightarrow> Finite 0 | Some d \<Rightarrow> d) (Finite 0))
              (Finite 1)"

text \<open>\<^verbatim>\<open>insertRow(direction = 0)\<close>; the row it returns is a reference to a row of the table.\<close>

definition insertRow :: "jsnum option \<Rightarrow> table \<Rightarrow> (exn + row_ref) \<times> table" where
  "insertRow direction s =
     (let direction = clamp_direction direction;
          insertionIndex = (case selectedRow s of
                              Some r \<Rightarrow> js_add (js_int (rowIndex r)) direction
                            | None \<Rightarrow> js_int 0)
      in case dom_insert (to_long insertionIndex) [] (rows s) of
           Inl e \<Rightarrow> (Inl e, s)
         | Inr (row, rs) \<Rightarrow>
             (let s1 = s\<lparr>rows := rs\<rparr>;
                  s2 = s1\<lparr>numberOfRows := numberOfRows s1 + 1\<rparr>
              in case fillRow row s2 of
                   (Some e, s3) \<Rightarrow> (Inl e, s3)
                 | (None, s3) \<Rightarrow> (Inr (Attached row), s3)))"

text \<open>
  \<^verbatim>\<open>insertColumn(direction = 0)\<close>: the counter is incremented first, then the loop
  \<^verbatim>\<open>for (let i = 0; i < rows.length; i++)\<close> inserts and fills a cell in each row. An
  exception of \<^verbatim>\<open>insertCell\<close> leaves the loop and the method.
\<close>

function insertColumn_loop :: "int \<Rightarrow> nat \<Rightarrow> table \<Rightarrow> (exn + unit) \<times> table" where
  "insertColumn_loop insertionIndex i s =
     (if i < length (rows s) then
        (case row_insertCell i insertionIndex s of
           (Inl e, s1) \<Rightarrow> (Inl e, s1)
         | (Inr cell, s1) \<Rightarrow> insertColumn_loop insertionIndex (Suc i) (fillCell cell s1))
      else (Inr (), s))"
  by pat_completeness auto
termination
proof (relation "measure (\<lambda>(insertionIndex, i, s). length (rows s) - i)")
  show "wf (measure (\<lambda>(insertionIndex, i, s). length (rows s) - i))" by simp
next
  fix insertionIndex :: int and i s and x :: "exn + nat" and y cell
  assume lt: "i < length (rows s)"
    and p: "(x, y) = row_insertCell i insertionIndex s" and x: "x = Inr cell"
  have "length (rows (snd (row_insertCell i insertionIndex s))) = length (rows s)"
    by (simp add: row_insertCell_def split: sum.splits prod.splits)
  moreover have "y = snd (row_insertCell i insertionIndex s)" using p by (metis snd_conv)
  ultimately have "length (rows (fillCell cell y)) = length (rows s)"
    by (simp add: fillCell_def td_classList_add_def Let_def)
  with lt show "((insertionIndex, Suc i, fillCell cell y), (insertionIndex, i, s))
        \<in> measure (\<lambda>(insertionIndex, i, s). length (rows s) - i)"
    by simp
qed

definition insertColumn :: "jsnum option \<Rightarrow> table \<Rightarrow> (exn + unit) \<times> table" where
  "insertColumn direction s =
     (let direction = clamp_direction direction;
          insertionIndex = (case get_selectedCell s of
                              Some c \<Rightarrow> js_add (js_int (cellIndex s c)) direction
                            | None \<Rightarrow> js_int 0);
          s1 = s\<lparr>numberOfColumns := numberOfColumns s + 1\<rparr>
      in insertColumn_loop (to_long insertionIndex) 0 s1)"

text \<open>\<^verbatim>\<open>deleteColumn()\<close>.\<close>

function deleteColumn_loop :: "int \<Rightarrow> nat \<Rightarrow> table \<Rightarrow> (exn + unit) \<times> table" where
  "deleteColumn_loop removalIndex i s =
     (if i < length (rows s) then
        (case row_deleteCell i removalIndex s of
           (Some e, s1) \<Rightarrow> (Inl e, s1)
         | (None, s1) \<Rightarrow> deleteColumn_loop removalIndex (Suc i) s1)
      else (Inr (), s))"
  by pat_completeness auto
termination
proof (relation "measure (\<lambda>(removalIndex, i, s). length (rows s) - i)")
  show "wf (measure (\<lambda>(removalIndex, i, s). length (rows s) - i))" by simp
next
  fix removalIndex :: int and i s and x :: "exn option" and y
  assume lt: "i < length (rows s)"
    and p: "(x, y) = row_deleteCell i removalIndex s" and x: "x = None"
  have "length (rows (snd (row_deleteCell i removalIndex s))) = length (rows s)"
    by (simp add: row_deleteCell_def blur_removed_def split: sum.splits prod.splits)
  moreover have "y = snd (row_deleteCell i removalIndex s)" using p by (metis snd_conv)
  ultimately have "length (rows y) = length (rows s)" by simp
  with lt show "((removalIndex, Suc i, y), (removalIndex, i, s))
        \<in> measure (\<lambda>(removalIndex, i, s). length (rows s) - i)"
    by simp
qed

definition deleteColumn :: "table \<Rightarrow> (exn + unit) \<times> table" where
  "deleteColumn s =
     (case get_selectedCell s of
        None \<Rightarrow> (Inr (), s)
      | Some c \<Rightarrow>
          (let removalIndex = cellIndex s c;
               s1 = s\<lparr>numberOfColumns := numberOfColumns s - 1\<rparr>
           in deleteColumn_loop removalIndex 0 s1))"

text \<open>
  \<^verbatim>\<open>deleteRow(index = -1)\<close>. The row taken out of the table stays alive as a detached
  row; the focus leaves it.
\<close>

definition deleteRow :: "jsnum option \<Rightarrow> table \<Rightarrow> (exn + unit) \<times> table" where
  "deleteRow index s =
     (case selectedRow s of
        None \<Rightarrow> (Inr (), s)
      | Some r \<Rightarrow>
          (let removalIndex = rowIndex r
           in case dom_delete removalIndex (rows s) of
                Inl e \<Rightarrow> (Inl e, s)
              | Inr (removed, rs) \<Rightarrow>
                  (let s1 = blur_removed (case removed of None \<Rightarrow> [] | Some x \<Rightarrow> x)
                              (s\<lparr>rows := rs,
                                 detached := detached s @
                                   (case removed of None \<Rightarrow> [] | Some x \<Rightarrow> [x])\<rparr>)
                   in (Inr (), s1\<lparr>numberOfRows := numberOfRows s1 - 1\<rparr>))))"

text \<open>The four convenience methods; none of them returns a value.\<close>

definition insertColumnAfter :: "table \<Rightarrow> (exn + unit) \<times> table" where
  "insertColumnAfter s = insertColumn (Some (Finite 1)) s"

definition insertColumnBefore :: "table \<Rightarrow> (exn + unit) \<times> table" where
  "insertColumnBefore s = insertColumn None s"

definition insertRowBefore :: "table \<Rightarrow> (exn + unit) \<times> table" where
  "insertRowBefore s = (case insertRow None s of (r, s1) \<Rightarrow> (map_sum id (\<lambda>_. ()) r, s1))"

definition insertRowAfter :: "table \<Rightarrow> (exn + unit) \<times> table" where
  "insertRowAfter s =
     (case insertRow (Some (Finite 1)) s of (r, s1) \<Rightarrow> (map_sum id (\<lambda>_. ()) r, s1))"

section \<open>Events\<close>

subsection \<open>Targets\<close>

text \<open>The element reached from a list of children by a path of child positions.\<close>

fun descend :: "element list \<Rightarrow> nat list \<Rightarrow> element option" where
  "descend es [] = None"
| "descend es (i # p) =
     (if length es \<le> i then None
      else if p = [] then Some (es ! i)
      else descend (children (es ! i)) p)"

text \<open>The class list of a target.\<close>

fun node_classes :: "table \<Rightarrow> node \<Rightarrow> string list" where
  "node_classes s Wrapper = classList createTableWrapper"
| "node_classes s TableEl =
     (case children createTableWrapper of [] \<Rightarrow> [] | t # _ \<Rightarrow> classList t)"
| "node_classes s (Cell c) = classList (tds s c)"
| "node_classes s (Inner c p) =
     (case descend (children (tds s c)) p of None \<Rightarrow> [] | Some e \<Rightarrow> classList e)"

definition classList_contains :: "table \<Rightarrow> node \<Rightarrow> string \<Rightarrow> bool" where
  "classList_contains s n k = (k \<in> set (node_classes s n))"

text \<open>Whether a target is the table or lies inside it.\<close>

definition cell_in_table :: "table \<Rightarrow> nat \<Rightarrow> bool" where
  "cell_in_table s c =
     (case closest_tr s c of Some (Attached i) \<Rightarrow> True | _ \<Rightarrow> False)"

fun in_table :: "table \<Rightarrow> node \<Rightarrow> bool" where
  "in_table s Wrapper = False"
| "in_table s TableEl = True"
| "in_table s (Cell c) = cell_in_table s c"
| "in_table s (Inner c p) = (cell_in_table s c \<and> descend (children (tds s c)) p \<noteq> None)"

text \<open>
  \<^verbatim>\<open>closest('.' + CSS.cell)\<close>. The cell class is put on \<^verbatim>\<open>td\<close> elements only (by
  \<^verbatim>\<open>_fillCell\<close>); what lies below a \<^verbatim>\<open>td\<close> is built by \<^verbatim>\<open>create\<close> with the area and the
  input field classes, and rows, table and wrapper do not carry it. So the walk up from a
  cell or from one of its descendants ends at that cell, if it carries the class, and
  finds nothing otherwise.
\<close>

fun closest_cell :: "table \<Rightarrow> node \<Rightarrow> nat option" where
  "closest_cell s (Cell c) = (if CSS_cell \<in> set (classList (tds s c)) then Some c else None)"
| "closest_cell s (Inner c p) = (if CSS_cell \<in> set (classList (tds s c)) then Some c else None)"
| "closest_cell s _ = None"

text \<open>
  \<^verbatim>\<open>querySelector('.' + k)\<close>: the path of the first element, in document order, among the
  descendants that carries the class.
\<close>

fun querySelector_from :: "string \<Rightarrow> nat \<Rightarrow> element list \<Rightarrow> nat list option" where
  "querySelector_from k i [] = None"
| "querySelector_from k i (Element t cl ats ch # es) =
     (if k \<in> set cl then Some [i]
      else case querySelector_from k 0 ch of
             Some p \<Rightarrow> Some (i # p)
           | None \<Rightarrow> querySelector_from k (Suc i) es)"

definition querySelector :: "table \<Rightarrow> node \<Rightarrow> string \<Rightarrow> node option" where
  "querySelector s n k =
     (case n of
        Cell c \<Rightarrow> map_option (Inner c) (querySelector_from k 0 (children (tds s c)))
      | Inner c p \<Rightarrow>
          (case descend (children (tds s c)) p of
             None \<Rightarrow> None
           | Some e \<Rightarrow> map_option (\<lambda>q. Inner c (p @ q)) (querySelector_from k 0 (children e)))
      | _ \<Rightarrow> None)"

subsection \<open>The handlers\<close>

text \<open>\<^verbatim>\<open>_focusEditField\<close>: writes the field \<^verbatim>\<open>_selectedCell\<close>, not through the setter.\<close>

definition focusEditField :: "node \<Rightarrow> table \<Rightarrow> table" where
  "focusEditField target s =
     (if \<not> classList_contains s target CSS_inputField then s
      else s\<lparr>selectedCell := closest_cell s target\<rparr>)"

text \<open>\<^verbatim>\<open>_blurEditField\<close>.\<close>

definition blurEditField :: "node \<Rightarrow> table \<Rightarrow> table" where
  "blurEditField target s =
     (if \<not> classList_contains s target CSS_inputField then s
      else s\<lparr>selectedCell := None\<rparr>)"

text \<open>A keyboard event, as far as the handlers read it.\<close>

record keyboard_event =
  key :: string
  ctrlKey :: bool
  shiftKey :: bool
  target :: node

text \<open>
  \<^verbatim>\<open>_pressedEnterInEditField\<close> changes nothing in the controller; the result is whether it
  calls \<^verbatim>\<open>preventDefault\<close>.
\<close>

definition pressedEnterInEditField :: "keyboard_event \<Rightarrow> table \<Rightarrow> bool" where
  "pressedEnterInEditField event s =
     (if \<not> classList_contains s (target event) CSS_inputField then False
      else key event = ''Enter'' \<and> \<not> shiftKey event)"

text \<open>
  The only \<^verbatim>\<open>focus\<close> listener that \<^verbatim>\<open>_attachEvents\<close> registers is on \<^verbatim>\<open>this._table\<close>, in
  the capture phase: it runs for a target inside the table.
\<close>

definition fire_focus :: "node \<Rightarrow> table \<Rightarrow> table" where
  "fire_focus n s = (if in_table s n then focusEditField n s else s)"

text \<open>
  \<^verbatim>\<open>focus()\<close> of an element. Of the elements of the table only an input field with
  \<^verbatim>\<open>contenteditable\<close> true can take the focus; it must be in the table, and an element that
  already has the focus gets no event.
\<close>

fun focusable :: "table \<Rightarrow> node \<Rightarrow> bool" where
  "focusable s (Inner c p) =
     (case descend (children (tds s c)) p of
        None \<Rightarrow> False
      | Some e \<Rightarrow> (''contenteditable'', True) \<in> set (attributes e))"
| "focusable s _ = False"

definition dom_focus :: "node \<Rightarrow> table \<Rightarrow> table" where
  "dom_focus n s =
     (if \<not> focusable s n \<or> \<not> in_table s n \<or> activeElement s = Some n then s
      else fire_focus n (s\<lparr>activeElement := Some n\<rparr>))"

text \<open>
  \<^verbatim>\<open>_clickedOnCell\<close>: \<^verbatim>\<open>querySelector\<close> gives \<^verbatim>\<open>null\<close> when the cell has no input field,
  and the call of \<^verbatim>\<open>focus\<close> on it is a \<^verbatim>\<open>TypeError\<close>.
\<close>

definition clickedOnCell :: "node \<Rightarrow> table \<Rightarrow> exn option \<times> table" where
  "clickedOnCell tgt s =
     (if \<not> classList_contains s tgt CSS_cell then (None, s)
      else case querySelector s tgt CSS_inputField of
             None \<Rightarrow> (Some TypeError, s)
           | Some content \<Rightarrow> (None, dom_focus content s))"

text \<open>
  The only \<^verbatim>\<open>click\<close> listener is on \<^verbatim>\<open>this._table\<close>. An exception inside a listener is
  reported by the browser and does not reach the code that dispatched the event.
  \<^verbatim>\<open>click()\<close> of an element dispatches a click on it.
\<close>

definition fire_click :: "node \<Rightarrow> table \<Rightarrow> table" where
  "fire_click n s = (if in_table s n then snd (clickedOnCell n s) else s)"

definition dom_click :: "node \<Rightarrow> table \<Rightarrow> table" where
  "dom_click n s = fire_click n s"

text \<open>
  The identifier \<^verbatim>\<open>side\<close> in \<^verbatim>\<open>_containerEnterPressed\<close>: the method binds \<^verbatim>\<open>event\<close> and
  \<^verbatim>\<open>newRow\<close>, the module binds \<^verbatim>\<open>create\<close>, \<^verbatim>\<open>getCoords\<close>, \<^verbatim>\<open>getSideByCoords\<close>, \<^verbatim>\<open>CSS\<close>
  and \<^verbatim>\<open>Table\<close>. An identifier bound by neither is looked up among the global bindings of
  the host page, and reading it is a \<^verbatim>\<open>ReferenceError\<close> when there is none.
\<close>

definition resolve_global :: "(string \<times> jsval) list \<Rightarrow> string \<Rightarrow> exn + jsval" where
  "resolve_global globals name =
     (case map_of globals name of None \<Rightarrow> Inl ReferenceError | Some v \<Rightarrow> Inr v)"

text \<open>
  \<^verbatim>\<open>_containerEnterPressed\<close>: inserts a row after the current one, clicks its first cell
  (\<^verbatim>\<open>newRow.cells[0]\<close> is \<^verbatim>\<open>undefined\<close> in a row without cells, and the call of \<^verbatim>\<open>click\<close>
  on it a \<^verbatim>\<open>TypeError\<close>), then builds the custom event, which reads \<^verbatim>\<open>side\<close>, and
  dispatches it on the target of the keyboard event.
\<close>

definition containerEnterPressed ::
  "(string \<times> jsval) list \<Rightarrow> keyboard_event \<Rightarrow> table \<Rightarrow> exn option \<times> table" where
  "containerEnterPressed globals event s =
     (case insertRow (Some (Finite 1)) s of
        (Inl e, s1) \<Rightarrow> (Some e, s1)
      | (Inr newRow, s1) \<Rightarrow>
          (case row_cells s1 newRow of
             [] \<Rightarrow> (Some TypeError, s1)
           | c # _ \<Rightarrow>
               (let s2 = dom_click (Cell c) s1
                in case resolve_global globals ''side'' of
                     Inl e \<Rightarrow> (Some e, s2)
                   | Inr side \<Rightarrow>
                       (None, s2\<lparr>dispatched := dispatched s2 @
                          [\<lparr>ev_type = ''mouseInActivatingArea'', ev_side = side,
                            ev_bubbles = True, ev_on = target event\<rparr>]\<rparr>))))"

text \<open>\<^verbatim>\<open>_containerKeydown\<close>.\<close>

definition containerKeydown ::
  "(string \<times> jsval) list \<Rightarrow> keyboard_event \<Rightarrow> table \<Rightarrow> exn option \<times> table" where
  "containerKeydown globals event s =
     (if key event = ''Enter'' \<and> ctrlKey event then containerEnterPressed globals event s
      else (None, s))"

subsection \<open>The listeners of \<^verbatim>\<open>_attachEvents\<close>\<close>

text \<open>
  An event of the browser on an element of the wrapper. \<^verbatim>\<open>_attachEvents\<close> registers four
  listeners: \<^verbatim>\<open>focus\<close> (capturing), \<^verbatim>\<open>keydown\<close> and \<^verbatim>\<open>click\<close> on the table, and
  \<^verbatim>\<open>keydown\<close> on the wrapper. An event of any other type meets no listener. A
  \<^verbatim>\<open>keydown\<close> bubbles from its target through the table, whose listener
  \<^verbatim>\<open>_pressedEnterInEditField\<close> leaves the controller as it is, to the wrapper; it reaches
  the wrapper's listener only from the wrapper itself or from inside the table, not from
  an element of a row or cell that has left the table. The result is the exception a
  listener has raised, if any, and the state.
\<close>

datatype event = Focus node | Blur node | FocusOut node | Click node | Keydown keyboard_event

fun fire :: "(string \<times> jsval) list \<Rightarrow> event \<Rightarrow> table \<Rightarrow> exn option \<times> table" where
  "fire globals (Focus n) s = (None, fire_focus n (s\<lparr>activeElement := Some n\<rparr>))"
| "fire globals (Blur n) s = (None, s\<lparr>activeElement := None\<rparr>)"
| "fire globals (FocusOut n) s = (None, s)"
| "fire globals (Click n) s = (if in_table s n then clickedOnCell n s else (None, s))"
| "fire globals (Keydown e) s =
     (if target e = Wrapper \<or> in_table s (target e) then containerKeydown globals e s
      else (None, s))"

section \<open>Calls and interactions\<close>

text \<open>The four public mutations, as calls of a host.\<close>

datatype call = InsertRow "jsnum option" | DeleteRow "jsnum option"
  | InsertColumn "jsnum option" | DeleteColumn

fun perform :: "call \<Rightarrow> table \<Rightarrow> (exn + unit) \<times> table" where
  "perform (InsertRow d) s = (case insertRow d s of (r, s1) \<Rightarrow> (map_sum id (\<lambda>_. ()) r, s1))"
| "perform (DeleteRow i) s = deleteRow i s"
| "perform (InsertColumn d) s = insertColumn d s"
| "perform DeleteColumn s = deleteColumn s"

text \<open>A sequence of calls ends at the first exception.\<close>

fun calls :: "call list \<Rightarrow> table \<Rightarrow> exn + table" where
  "calls [] s = Inr s"
| "calls (c # cs) s =
     (case perform c s of (Inl e, s1) \<Rightarrow> Inl e | (Inr _, s1) \<Rightarrow> calls cs s1)"

text \<open>
  What can happen to a controller: a call, an event of the browser (on a page without a
  global \<^verbatim>\<open>side\<close>), or an assignment to the property \<^verbatim>\<open>selectedCell\<close>. The state
  \<open>after\<close> a list of them is the state they leave of a controller made with
  \<^verbatim>\<open>new Table(false)\<close>.
\<close>

datatype action = Call call | Event event | Assign "nat option"

fun act :: "action \<Rightarrow> table \<Rightarrow> table" where
  "act (Call c) s = snd (perform c s)"
| "act (Event e) s = snd (fire [] e s)"
| "act (Assign cell) s = set_selectedCell cell s"

definition after :: "action list \<Rightarrow> table" where
  "after as = fold act as (new_Table False)"

section \<open>Notions of the specification\<close>

text \<open>
  An empty editable cell: what \<^verbatim>\<open>insertCell\<close> and \<^verbatim>\<open>_fillCell\<close> make together, a \<^verbatim>\<open>td\<close>
  with the cell class that holds an area with an input field without content. The input
  field is editable unless the controller is read-only.
\<close>

definition empty_editable_cell :: "bool \<Rightarrow> element" where
  "empty_editable_cell ro =
     Element ''td'' [CSS_cell] []
       [Element ''div'' [CSS_area] []
          [Element ''div'' [CSS_inputField] [(''contenteditable'', \<not> ro)] []]]"

text \<open>The cells of the grid that carry the highlight marker.\<close>

definition highlighted :: "table \<Rightarrow> nat list" where
  "highlighted s = filter (\<lambda>c. CSS_highlight \<in> set (classList (tds s c))) (concat (rows s))"

text \<open>Every row of the grid has exactly \<open>numberOfColumns\<close> cells.\<close>

definition uniform :: "table \<Rightarrow> bool" where
  "uniform s \<longleftrightarrow> (\<forall>r \<in> set (rows s). int (length r) = numberOfColumns s)"

definition unselected_uniform :: "table \<Rightarrow> bool" where
  "unselected_uniform s \<longleftrightarrow>
     selectedCell s = None \<and> 0 \<le> numberOfColumns s \<and> uniform s"

text \<open>Insertion into a list at an index of the DOM, where \<open>-1\<close> is the end.\<close>

definition insert_pos :: "int \<Rightarrow> 'a list \<Rightarrow> nat" where
  "insert_pos index xs = (if index = -1 then length xs else nat index)"

definition insert_at :: "int \<Rightarrow> 'a \<Rightarrow> 'a list \<Rightarrow> 'a list" where
  "insert_at index x xs =
     take (insert_pos index xs) xs @ x # drop (insert_pos index xs) xs"

text \<open>The \<^verbatim>\<open>insertionIndex\<close> that \<^verbatim>\<open>insertRow\<close> and \<^verbatim>\<open>insertColumn\<close> compute.\<close>

definition insertRow_index :: "jsnum option \<Rightarrow> table \<Rightarrow> int" where
  "insertRow_index direction s =
     to_long (case selectedRow s of
                Some r \<Rightarrow> js_add (js_int (rowIndex r)) (clamp_direction direction)
              | None \<Rightarrow> js_int 0)"

definition insertColumn_index :: "jsnum option \<Rightarrow> table \<Rightarrow> int" where
  "insertColumn_index direction s =
     to_long (case get_selectedCell s of
                Some c \<Rightarrow> js_add (js_int (cellIndex s c)) (clamp_direction direction)
              | None \<Rightarrow> js_int 0)"

text \<open>
  The direction of the specification, 0 (before) or 1 (after), that a direction argument
  stands for: 0 for no argument and for a number that is at most 0, 1 for a number that is
  at least 1. \<^verbatim>\<open>NaN\<close> and a fraction strictly between 0 and 1 stand for neither.
\<close>

fun clamped :: "jsnum option \<Rightarrow> int option" where
  "clamped None = Some 0"
| "clamped (Some (Finite x)) = (if x \<le> 0 then Some 0 else if 1 \<le> x then Some 1 else None)"
| "clamped (Some PosInfinity) = Some 1"
| "clamped (Some NegInfinity) = Some 0"
| "clamped (Some NaN) = None"

text \<open>
  The state with \<open>n\<close> new empty editable cells at the end of a row, and the state with one
  new empty editable cell at an index in every row from position \<open>i\<close> on.
\<close>

definition with_cells :: "table \<Rightarrow> nat \<Rightarrow> nat \<Rightarrow> table" where
  "with_cells s row n =
     s\<lparr>rows := (rows s)[row := rows s ! row @ [fresh s..<fresh s + n]],
       tds := (\<lambda>c. if fresh s \<le> c \<and> c < fresh s + n
                   then empty_editable_cell (readOnly s) else tds s c),
       fresh := fresh s + n\<rparr>"

definition with_column :: "table \<Rightarrow> int \<Rightarrow> nat \<Rightarrow> table" where
  "with_column s index i =
     s\<lparr>rows := map (\<lambda>j. if j < i then rows s ! j
                         else insert_at index (fresh s + (j - i)) (rows s ! j))
                   [0..<length (rows s)],
       tds := (\<lambda>c. if fresh s \<le> c \<and> c < fresh s + (length (rows s) - i)
                   then empty_editable_cell (readOnly s) else tds s c),
       fresh := fresh s + (length (rows s) - i)\<rparr>"

subsection \<open>Scenarios\<close>

text \<open>A grid of two rows and two columns without a selection; its rows are \<open>[[2, 3], [0, 1]]\<close>.\<close>

definition grid_2x2 :: table where
  "grid_2x2 = after [Call (InsertColumn None), Call (InsertColumn None),
                     Call (InsertRow None), Call (InsertRow None)]"

text \<open>
  The same grid after the focus has entered the input field of cell \<open>3\<close>, the second cell
  of the first row.
\<close>

definition focused_2x2 :: table where
  "focused_2x2 = after [Call (InsertColumn None), Call (InsertColumn None),
                        Call (InsertRow None), Call (InsertRow None),
                        Event (Focus (Inner 3 [0, 0]))]"

text \<open>
  A grid of two rows and one column, rows \<open>[[1], [0]]\<close>, after the focus has entered the
  input field of cell \<open>0\<close>, in the second row.
\<close>

definition focused_2x1 :: table where
  "focused_2x1 = after [Call (InsertColumn None), Call (InsertRow None), Call (InsertRow None),
                        Event (Focus (Inner 0 [0, 0]))]"

text \<open>The same after \<^verbatim>\<open>deleteRow()\<close>: the selected cell is in a row that has left the table.\<close>

definition stale_1x1 :: table where
  "stale_1x1 = after [Call (InsertColumn None), Call (InsertRow None), Call (InsertRow None),
                      Event (Focus (Inner 0 [0, 0])), Call (DeleteRow None)]"

text \<open>And after \<^verbatim>\<open>deleteColumn()\<close> on top: one row without cells, no columns.\<close>

definition stale_1x0 :: table where
  "stale_1x0 = after [Call (InsertColumn None), Call (InsertRow None), Call (InsertRow None),
                      Event (Focus (Inner 0 [0, 0])), Call (DeleteRow None), Call DeleteColumn]"

text \<open>
  A grid of one row and one column after the focus has entered its cell, and the keyboard
  event of Ctrl+Enter in that input field.
\<close>

definition focused_1x1 :: table where
  "focused_1x1 = after [Call (InsertColumn None), Call (InsertRow None),
                        Event (Focus (Inner 0 [0, 0]))]"

definition ctrl_enter :: keyboard_event where
  "ctrl_enter = \<lparr>key = ''Enter'', ctrlKey = True, shiftKey = False, target = Inner 0 [0, 0]\<rparr>"

text \<open>The same keys in an event whose target is the wrapper itself.\<close>

definition ctrl_enter_on_wrapper :: keyboard_event where
  "ctrl_enter_on_wrapper =
     \<lparr>key = ''Enter'', ctrlKey = True, shiftKey = False, target = Wrapper\<rparr>"

text \<open>
  One row of two cells; the host assigns cell \<open>0\<close> to \<^verbatim>\<open>selectedCell\<close>, then the focus
  enters the input field of cell \<open>1\<close>; and the host assigns cell \<open>1\<close> after that.
\<close>

definition assigned_then_focused :: table where
  "assigned_then_focused =
     after [Call (InsertColumn None), Call (InsertColumn None), Call (InsertRow None),
            Assign (Some 0), Event (Focus (Inner 1 [0, 0]))]"

definition assigned_again :: table where
  "assigned_again =
     after [Call (InsertColumn None), Call (InsertColumn None), Call (InsertRow None),
            Assign (Some 0), Event (Focus (Inner 1 [0, 0])), Assign (Some 1)]"

text \<open>
  The grid of two rows and two columns after the focus has entered cell \<open>1\<close>, the second
  cell of the second row, and after \<^verbatim>\<open>deleteRow()\<close> and two calls of \<^verbatim>\<open>deleteColumn()\<close>.
\<close>

definition stale_deleted_twice :: table where
  "stale_deleted_twice =
     after [Call (InsertColumn None), Call (InsertColumn None),
            Call (InsertRow None), Call (InsertRow None),
            Event (Focus (Inner 1 [0, 0])), Call (DeleteRow None),
            Call DeleteColumn, Call DeleteColumn]"

text \<open>A cell that has been removed from its row is still the selected cell.\<close>

definition orphan_selected :: table where
  "orphan_selected = after [Call (InsertColumn None), Call (InsertRow None),
                            Event (Focus (Inner 0 [0, 0])), Call DeleteColumn]"

text \<open>And a second \<^verbatim>\<open>deleteColumn()\<close> takes the counter of the columns below 0.\<close>

definition negative_columns :: table where
  "negative_columns = after [Call (InsertColumn None), Call (InsertRow None),
                             Event (Focus (Inner 0 [0, 0])), Call DeleteColumn,
                             Call DeleteColumn]"

section \<open>Evaluation and basic facts\<close>

declare fillRow_loop.simps [simp del] insertColumn_loop.simps [simp del]
  deleteColumn_loop.simps [simp del]

lemmas eval_defs = after_def new_Table_def insertRow_def insertColumn_def deleteRow_def
  deleteColumn_def fillRow_def fillRow_loop.simps insertColumn_loop.simps
  deleteColumn_loop.simps row_insertCell_def row_deleteCell_def dom_insert_def dom_delete_def
  fillCell_def td_classList_add_def td_classList_remove_def classList_add_def
  classList_remove_def createContenteditableArea_def create_def clamp_direction_def
  js_int_def blur_removed_def focus_in_def
  selectedRow_def get_selectedCell_def closest_tr_def cellIndex_def set_selectedCell_def
  focusEditField_def blurEditField_def fire_focus_def classList_contains_def cell_in_table_def
  clickedOnCell_def querySelector_def dom_focus_def fire_click_def dom_click_def
  containerEnterPressed_def containerKeydown_def resolve_global_def createTableWrapper_def
  insertRowBefore_def insertRowAfter_def insertColumnBefore_def insertColumnAfter_def
  highlighted_def empty_editable_cell_def Let_def

subsection \<open>Positions\<close>

lemma find_pos_Some:
  "find_pos P xs = Some i \<Longrightarrow> i < length xs \<and> P (xs ! i)"
  by (induction xs arbitrary: i) (auto split: if_splits)

lemma closest_tr_Attached:
  "closest_tr s c = Some (Attached i) \<Longrightarrow> i < length (rows s) \<and> c \<in> set (rows s ! i)"
  by (auto simp: closest_tr_def split: option.splits dest: find_pos_Some)

lemma rowIndex_bounds:
  "closest_tr s c = Some r \<Longrightarrow> -1 \<le> rowIndex r \<and> rowIndex r < int (length (rows s))"
  by (cases r) (auto dest: closest_tr_Attached)

lemma cellIndex_ge: "-1 \<le> cellIndex s c"
  by (simp add: cellIndex_def split: option.splits)

lemma find_pos_row:
  "distinct (concat rs) \<Longrightarrow> i < length rs \<Longrightarrow> c \<in> set (rs ! i) \<Longrightarrow>
   find_pos (\<lambda>r. c \<in> set r) rs = Some i"
proof (induction rs arbitrary: i)
  case Nil
  then show ?case by simp
next
  case (Cons r rs)
  show ?case
  proof (cases i)
    case 0
    then show ?thesis using Cons.prems by simp
  next
    case (Suc j)
    then have j: "j < length rs" "c \<in> set (rs ! j)" using Cons.prems by auto
    then have "c \<in> set (concat rs)" by (auto intro: nth_mem)
    then have "c \<notin> set r" using Cons.prems(1) by auto
    moreover have "find_pos (\<lambda>r. c \<in> set r) rs = Some j"
      using Cons.IH[of j] Cons.prems(1) j by simp
    ultimately show ?thesis using Suc by simp
  qed
qed

lemma find_pos_nth:
  "distinct xs \<Longrightarrow> k < length xs \<Longrightarrow> find_pos (\<lambda>x. x = xs ! k) xs = Some k"
proof (induction xs arbitrary: k)
  case Nil
  then show ?case by simp
next
  case (Cons x xs)
  show ?case
  proof (cases k)
    case 0
    then show ?thesis by simp
  next
    case (Suc j)
    then have "xs ! j \<in> set xs" using Cons.prems by simp
    then have "x \<noteq> xs ! j" using Cons.prems(1) by auto
    then show ?thesis using Suc Cons by simp
  qed
qed

lemma distinct_concat_nth:
  "distinct (concat rs) \<Longrightarrow> i < length rs \<Longrightarrow> distinct (rs ! i)"
  by (induction rs arbitrary: i) (auto simp: nth_Cons split: nat.splits)

text \<open>
  Where the cells of the grid are pairwise distinct, the cell at column \<open>k\<close> of the row at
  position \<open>i\<close> has that row as its closest row and \<open>k\<close> as its \<^verbatim>\<open>cellIndex\<close>.
\<close>

lemma located:
  assumes "distinct (concat (rows s))" "i < length (rows s)" "k < length (rows s ! i)"
    and "rows s ! i ! k = c"
  shows "closest_tr s c = Some (Attached i)" and "cellIndex s c = int k"
proof -
  have "c \<in> set (rows s ! i)" using assms(3,4) by (auto intro: nth_mem)
  then show tr: "closest_tr s c = Some (Attached i)"
    using find_pos_row[OF assms(1,2)] by (simp add: closest_tr_def)
  have "find_pos (\<lambda>x. x = c) (rows s ! i) = Some k"
    using find_pos_nth[OF distinct_concat_nth[OF assms(1,2)] assms(3)] assms(4) by simp
  then show "cellIndex s c = int k" by (simp add: cellIndex_def tr)
qed

subsection \<open>The clamped direction and the index\<close>

lemma clamp_direction_cases:
  "clamp_direction d = NaN \<or> (\<exists>x. clamp_direction d = Finite x \<and> 0 \<le> x \<and> x \<le> 1)"
proof (cases d)
  case None
  then show ?thesis by (simp add: clamp_direction_def)
next
  case (Some n)
  then show ?thesis by (cases n) (auto simp: clamp_direction_def)
qed

lemma clamped_clamp:
  "clamped d = Some e \<Longrightarrow> clamp_direction d = Finite (of_int e) \<and> (e = 0 \<or> e = 1)"
proof (cases d)
  case None
  then show "clamped d = Some e \<Longrightarrow> ?thesis" by (auto simp: clamp_direction_def)
next
  case (Some n)
  then show "clamped d = Some e \<Longrightarrow> ?thesis"
    by (cases n) (auto simp: clamp_direction_def split: if_splits)
qed

lemma to_long_int_add: "to_long (js_add (js_int p) (Finite (of_int e))) = p + e"
proof -
  have "of_int p + of_int e = (of_int (p + e) :: real)" by simp
  then show ?thesis by (simp add: js_int_def del: of_int_add)
qed

lemma to_long_add_bounds:
  assumes "0 \<le> x" "x \<le> 1"
  shows "p \<le> to_long (js_add (js_int p) (Finite x)) \<and>
         to_long (js_add (js_int p) (Finite x)) \<le> p + 1"
proof -
  have "p \<le> \<lfloor>of_int p + x\<rfloor>" "\<lfloor>of_int p + x\<rfloor> \<le> p + 1"
    "p \<le> \<lceil>of_int p + x\<rceil>" "\<lceil>of_int p + x\<rceil> \<le> p + 1"
    using assms by (simp_all add: le_floor_iff floor_le_iff le_ceiling_iff ceiling_le_iff)
  then show ?thesis by (simp add: js_int_def)
qed

lemma to_long_clamp_bounds:
  assumes "-1 \<le> p" "p < n"
  shows "-1 \<le> to_long (js_add (js_int p) (clamp_direction d)) \<and>
         to_long (js_add (js_int p) (clamp_direction d)) \<le> n"
proof -
  from clamp_direction_cases[of d] show ?thesis
  proof
    assume "clamp_direction d = NaN"
    then show ?thesis using assms by (simp add: js_int_def)
  next
    assume "\<exists>x. clamp_direction d = Finite x \<and> 0 \<le> x \<and> x \<le> 1"
    then obtain x where x: "clamp_direction d = Finite x" "0 \<le> x" "x \<le> 1" by blast
    from to_long_add_bounds[OF x(2,3), of p] show ?thesis using assms x(1) by simp
  qed
qed

lemma insertRow_index_bounds:
  "-1 \<le> insertRow_index d s \<and> insertRow_index d s \<le> int (length (rows s))"
proof (cases "selectedRow s")
  case None
  then show ?thesis by (simp add: insertRow_index_def js_int_def)
next
  case (Some r)
  then obtain c where "closest_tr s c = Some r"
    by (auto simp: selectedRow_def get_selectedCell_def split: option.splits)
  from rowIndex_bounds[OF this] to_long_clamp_bounds[of "rowIndex r" "int (length (rows s))" d]
  show ?thesis using Some by (simp add: insertRow_index_def)
qed

lemma insertColumn_index_ge: "-1 \<le> insertColumn_index d s"
proof (cases "get_selectedCell s")
  case None
  then show ?thesis by (simp add: insertColumn_index_def js_int_def)
next
  case (Some c)
  then show ?thesis
    using to_long_clamp_bounds[of "cellIndex s c" "cellIndex s c + 1" d] cellIndex_ge[of s c]
    by (simp add: insertColumn_index_def)
qed

lemma insertRow_index_clamped:
  "clamped d = Some e \<Longrightarrow>
   insertRow_index d s = (case selectedRow s of Some r \<Rightarrow> rowIndex r + e | None \<Rightarrow> 0)"
  using clamped_clamp[of d e]
  by (auto simp: insertRow_index_def to_long_int_add js_int_def split: option.splits)

lemma insertColumn_index_clamped:
  "clamped d = Some e \<Longrightarrow>
   insertColumn_index d s =
     (case selectedCell s of Some c \<Rightarrow> cellIndex s c + e | None \<Rightarrow> 0)"
  using clamped_clamp[of d e]
  by (auto simp: insertColumn_index_def get_selectedCell_def to_long_int_add js_int_def
      split: option.splits)

lemma index_NaN:
  "insertRow_index (Some NaN) s = 0" "insertColumn_index (Some NaN) s = 0"
  by (simp_all add: insertRow_index_def insertColumn_index_def clamp_direction_def js_int_def
      split: option.splits)

subsection \<open>The DOM insertion\<close>

lemma dom_insert_eq:
  "-1 \<le> index \<Longrightarrow> index \<le> int (length xs) \<Longrightarrow>
   dom_insert index x xs = Inr (insert_pos index xs, insert_at index x xs)"
  by (auto simp: dom_insert_def insert_pos_def insert_at_def)

lemma length_insert_at [simp]:
  "-1 \<le> index \<Longrightarrow> index \<le> int (length xs) \<Longrightarrow>
   length (insert_at index x xs) = Suc (length xs)"
  by (auto simp: insert_at_def insert_pos_def)

lemma fillCell_new:
  "fillCell c (s\<lparr>rows := rs, tds := (tds s)(c := Element ''td'' [] [] []), fresh := f\<rparr>) =
   s\<lparr>rows := rs, tds := (tds s)(c := empty_editable_cell (readOnly s)), fresh := f\<rparr>"
  by (simp add: fillCell_def td_classList_add_def classList_add_def Let_def
      createContenteditableArea_def create_def empty_editable_cell_def)

lemma insert_fill:
  assumes "pos < length (rows s)" "-1 \<le> index" "index \<le> int (length (rows s ! pos))"
  shows "\<exists>s1. row_insertCell pos index s = (Inr (fresh s), s1) \<and>
     fillCell (fresh s) s1 =
       s\<lparr>rows := (rows s)[pos := insert_at index (fresh s) (rows s ! pos)],
         tds := (tds s)(fresh s := empty_editable_cell (readOnly s)),
         fresh := Suc (fresh s)\<rparr>"
  using assms(1) dom_insert_eq[OF assms(2,3), of "fresh s"]
  by (simp add: row_insertCell_def fillCell_new)

subsection \<open>The loop of \<^verbatim>\<open>_fillRow\<close>\<close>

lemma with_cells_fields [simp]:
  "numberOfColumns (with_cells s row n) = numberOfColumns s"
  "numberOfRows (with_cells s row n) = numberOfRows s"
  "selectedCell (with_cells s row n) = selectedCell s"
  "detached (with_cells s row n) = detached s"
  "readOnly (with_cells s row n) = readOnly s"
  "dispatched (with_cells s row n) = dispatched s"
  "activeElement (with_cells s row n) = activeElement s"
  "rows (with_cells s row n) = (rows s)[row := rows s ! row @ [fresh s..<fresh s + n]]"
  by (simp_all add: with_cells_def)

lemma with_cells_0: "row < length (rows s) \<Longrightarrow> with_cells s row 0 = s"
  by (rule table.equality) (auto simp: with_cells_def fun_eq_iff)

lemma upt_shift: "[f..<Suc (f + n)] = f # [Suc f..<Suc (f + n)]"
  by (simp add: upt_conv_Cons del: upt_Suc)

lemma with_cells_Suc:
  "row < length (rows s) \<Longrightarrow>
   with_cells (s\<lparr>rows := (rows s)[row := rows s ! row @ [fresh s]],
                tds := (tds s)(fresh s := empty_editable_cell (readOnly s)),
                fresh := Suc (fresh s)\<rparr>) row n = with_cells s row (Suc n)"
  by (rule table.equality) (auto simp: with_cells_def upt_shift fun_eq_iff simp del: upt_Suc)

lemma fillRow_loop_eq:
  "row < length (rows s) \<Longrightarrow>
   fillRow_loop row i s = (None, with_cells s row (nat (numberOfColumns s - int i)))"
proof (induction row i s rule: fillRow_loop.induct)
  case (1 row i s)
  show ?case
  proof (cases "int i < numberOfColumns s")
    case False
    then show ?thesis using "1.prems"
      by (subst fillRow_loop.simps) (simp add: with_cells_0)
  next
    case True
    let ?s2 = "s\<lparr>rows := (rows s)[row := insert_at (-1) (fresh s) (rows s ! row)],
         tds := (tds s)(fresh s := empty_editable_cell (readOnly s)),
         fresh := Suc (fresh s)\<rparr>"
    obtain s1 where s1: "row_insertCell row (-1) s = (Inr (fresh s), s1)"
      and s2: "fillCell (fresh s) s1 = ?s2"
      using insert_fill[OF "1.prems", of "-1"] by auto
    have ih: "fillRow_loop row (Suc i) ?s2 =
        (None, with_cells ?s2 row (nat (numberOfColumns ?s2 - int (Suc i))))"
      using "1.IH"[OF True s1[symmetric] refl] "1.prems" s2 by simp
    have n: "nat (numberOfColumns s - int i) = Suc (nat (numberOfColumns s - int (Suc i)))"
      using True by simp
    have "fillRow_loop row i s = fillRow_loop row (Suc i) ?s2"
      using True s1 s2 by (subst fillRow_loop.simps) simp
    also have "\<dots> = (None, with_cells s row (nat (numberOfColumns s - int i)))"
      using ih with_cells_Suc[OF "1.prems"] by (simp add: n insert_at_def insert_pos_def)
    finally show ?thesis .
  qed
qed

lemma insertRow_eq:
  "insertRow d s =
     (Inr (Attached (insert_pos (insertRow_index d s) (rows s))),
      with_cells
        (s\<lparr>rows := insert_at (insertRow_index d s) [] (rows s),
           numberOfRows := numberOfRows s + 1\<rparr>)
        (insert_pos (insertRow_index d s) (rows s)) (nat (numberOfColumns s)))"
proof -
  let ?idx = "insertRow_index d s"
  let ?pos = "insert_pos ?idx (rows s)"
  have b: "-1 \<le> ?idx" "?idx \<le> int (length (rows s))"
    using insertRow_index_bounds[of d s] by auto
  let ?s2 = "s\<lparr>rows := insert_at ?idx [] (rows s), numberOfRows := numberOfRows s + 1\<rparr>"
  have "?pos \<le> length (rows s)" using b by (auto simp: insert_pos_def)
  then have "?pos < length (rows ?s2)" using b by simp
  then have "fillRow ?pos ?s2 = (None, with_cells ?s2 ?pos (nat (numberOfColumns ?s2 - int 0)))"
    unfolding fillRow_def by (rule fillRow_loop_eq)
  then show ?thesis
    using dom_insert_eq[OF b, of "[]"]
    by (simp add: insertRow_def Let_def insertRow_index_def[symmetric])
qed

lemma insertRow_rows:
  "rows (snd (insertRow d s)) =
     take (insert_pos (insertRow_index d s) (rows s)) (rows s) @
     [fresh s..<fresh s + nat (numberOfColumns s)] #
     drop (insert_pos (insertRow_index d s) (rows s)) (rows s)"
proof -
  have "insert_pos (insertRow_index d s) (rows s) \<le> length (rows s)"
    using insertRow_index_bounds[of d s] by (auto simp: insert_pos_def)
  then show ?thesis
    by (simp add: insertRow_eq insert_at_def list_update_append nth_append min_def)
qed

subsection \<open>The loop of \<^verbatim>\<open>insertColumn\<close>\<close>

lemma with_column_fields [simp]:
  "numberOfColumns (with_column s index i) = numberOfColumns s"
  "numberOfRows (with_column s index i) = numberOfRows s"
  "selectedCell (with_column s index i) = selectedCell s"
  "detached (with_column s index i) = detached s"
  "readOnly (with_column s index i) = readOnly s"
  "dispatched (with_column s index i) = dispatched s"
  "activeElement (with_column s index i) = activeElement s"
  "length (rows (with_column s index i)) = length (rows s)"
  by (simp_all add: with_column_def)

lemma with_column_nth:
  "j < length (rows s) \<Longrightarrow>
   rows (with_column s index 0) ! j = insert_at index (fresh s + j) (rows s ! j)"
  by (simp add: with_column_def)

lemma with_column_tds:
  "j < length (rows s) \<Longrightarrow>
   tds (with_column s index 0) (fresh s + j) = empty_editable_cell (readOnly s)"
  by (simp add: with_column_def)

lemma with_column_end: "length (rows s) \<le> i \<Longrightarrow> with_column s index i = s"
  by (rule table.equality) (auto simp: with_column_def fun_eq_iff intro!: nth_equalityI)

lemma with_column_step:
  "i < length (rows s) \<Longrightarrow>
   with_column (s\<lparr>rows := (rows s)[i := insert_at index (fresh s) (rows s ! i)],
                 tds := (tds s)(fresh s := empty_editable_cell (readOnly s)),
                 fresh := Suc (fresh s)\<rparr>) index (Suc i) = with_column s index i"
  by (rule table.equality)
     (auto simp: with_column_def fun_eq_iff nth_list_update Suc_diff_Suc less_Suc_eq
           intro!: nth_equalityI)

lemma insertColumn_loop_eq:
  "\<forall>j. i \<le> j \<and> j < length (rows s) \<longrightarrow> index \<le> int (length (rows s ! j)) \<Longrightarrow>
   -1 \<le> index \<Longrightarrow>
   insertColumn_loop index i s = (Inr (), with_column s index i)"
proof (induction index i s rule: insertColumn_loop.induct)
  case (1 index i s)
  show ?case
  proof (cases "i < length (rows s)")
    case False
    then show ?thesis
      by (subst insertColumn_loop.simps) (simp add: with_column_end)
  next
    case True
    let ?s2 = "s\<lparr>rows := (rows s)[i := insert_at index (fresh s) (rows s ! i)],
         tds := (tds s)(fresh s := empty_editable_cell (readOnly s)),
         fresh := Suc (fresh s)\<rparr>"
    have ok: "index \<le> int (length (rows s ! i))" using "1.prems"(1) True by simp
    obtain s1 where s1: "row_insertCell i index s = (Inr (fresh s), s1)"
      and s2: "fillCell (fresh s) s1 = ?s2"
      using insert_fill[OF True "1.prems"(2) ok] by auto
    have valid: "\<forall>j. Suc i \<le> j \<and> j < length (rows ?s2) \<longrightarrow>
        index \<le> int (length (rows ?s2 ! j))"
      using "1.prems"(1) by (auto simp: nth_list_update)
    have ih: "insertColumn_loop index (Suc i) ?s2 = (Inr (), with_column ?s2 index (Suc i))"
      using "1.IH"[OF True s1[symmetric] refl] valid "1.prems"(2) s2 by simp
    have "insertColumn_loop index i s = insertColumn_loop index (Suc i) ?s2"
      using True s1 s2 by (subst insertColumn_loop.simps) simp
    also have "\<dots> = (Inr (), with_column s index i)"
      using ih with_column_step[OF True] by simp
    finally show ?thesis .
  qed
qed

lemma insertColumn_eq:
  assumes "\<forall>r \<in> set (rows s). insertColumn_index d s \<le> int (length r)"
  shows "insertColumn d s =
     (Inr (), with_column (s\<lparr>numberOfColumns := numberOfColumns s + 1\<rparr>)
                (insertColumn_index d s) 0)"
proof -
  let ?s1 = "s\<lparr>numberOfColumns := numberOfColumns s + 1\<rparr>"
  have "\<forall>j. 0 \<le> j \<and> j < length (rows ?s1) \<longrightarrow>
      insertColumn_index d s \<le> int (length (rows ?s1 ! j))"
    using assms by simp
  then have "insertColumn_loop (insertColumn_index d s) 0 ?s1 =
      (Inr (), with_column ?s1 (insertColumn_index d s) 0)"
    using insertColumn_index_ge by (rule insertColumn_loop_eq)
  then show ?thesis
    by (simp add: insertColumn_def Let_def insertColumn_index_def[symmetric])
qed

subsection \<open>Calls without a selection keep the grid uniform\<close>

lemma insertRow_unselected:
  assumes "unselected_uniform s"
  shows "\<exists>s1. perform (InsertRow d) s = (Inr (), s1) \<and> unselected_uniform s1"
proof -
  have "set (rows (snd (insertRow d s))) \<subseteq>
      insert [fresh s..<fresh s + nat (numberOfColumns s)] (set (rows s))"
    unfolding insertRow_rows by (auto dest: in_set_takeD in_set_dropD)
  then have "unselected_uniform (snd (insertRow d s))"
    using assms by (auto simp: unselected_uniform_def uniform_def insertRow_eq)
  then show ?thesis by (simp add: insertRow_eq)
qed

lemma insertColumn_unselected:
  assumes "unselected_uniform s"
  shows "\<exists>s1. perform (InsertColumn d) s = (Inr (), s1) \<and> unselected_uniform s1"
proof -
  have idx: "insertColumn_index d s = 0"
    using assms
    by (simp add: insertColumn_index_def get_selectedCell_def unselected_uniform_def js_int_def)
  have eq: "insertColumn d s =
      (Inr (), with_column (s\<lparr>numberOfColumns := numberOfColumns s + 1\<rparr>) 0 0)"
    using insertColumn_eq[of s d] by (simp add: idx)
  let ?w = "with_column (s\<lparr>numberOfColumns := numberOfColumns s + 1\<rparr>) 0 0"
  have "int (length r) = numberOfColumns ?w" if "r \<in> set (rows ?w)" for r
  proof -
    from that obtain j where j: "j < length (rows s)" and r: "r = rows ?w ! j"
      by (auto simp: in_set_conv_nth)
    have "int (length (rows s ! j)) = numberOfColumns s"
      using assms j by (simp add: unselected_uniform_def uniform_def)
    then show ?thesis using j r by (simp add: with_column_nth)
  qed
  then have "uniform ?w" by (simp add: uniform_def)
  then show ?thesis using assms by (simp add: eq unselected_uniform_def)
qed

lemma perform_unselected:
  assumes "unselected_uniform s"
  shows "\<exists>s1. perform c s = (Inr (), s1) \<and> unselected_uniform s1"
proof (cases c)
  case (InsertRow d)
  then show ?thesis using insertRow_unselected[OF assms] by simp
next
  case (DeleteRow i)
  then show ?thesis using assms
    by (simp add: deleteRow_def selectedRow_def get_selectedCell_def unselected_uniform_def)
next
  case (InsertColumn d)
  then show ?thesis using insertColumn_unselected[OF assms] by simp
next
  case DeleteColumn
  then show ?thesis using assms
    by (simp add: deleteColumn_def get_selectedCell_def unselected_uniform_def)
qed

lemma calls_unselected:
  "unselected_uniform s \<Longrightarrow> \<exists>s1. calls cs s = Inr s1 \<and> unselected_uniform s1"
proof (induction cs arbitrary: s)
  case Nil
  then show ?case by simp
next
  case (Cons c cs)
  from perform_unselected[OF Cons.prems, of c]
  obtain s1 where s1: "perform c s = (Inr (), s1)" and inv: "unselected_uniform s1" by blast
  from Cons.IH[OF inv] show ?case using s1 by simp
qed


section \<open>The invariant of the grid\<close>

text \<open>
  Claim C1. Starting from a freshly constructed controller (no rows, no columns), after
  any sequence of \<^verbatim>\<open>insertRow\<close>, \<^verbatim>\<open>deleteRow\<close>, \<^verbatim>\<open>insertColumn\<close> and \<^verbatim>\<open>deleteColumn\<close>
  calls, whatever their arguments, no call has raised an exception and every row of the
  grid has exactly \<open>numberOfColumns\<close> cells. (No call of such a sequence selects a cell.)
\<close>

theorem rows_have_numberOfColumns_cells:
  "\<exists>s. calls cs (new_Table ro) = Inr s \<and>
       (\<forall>r \<in> set (rows s). int (length r) = numberOfColumns s)"
proof -
  have "unselected_uniform (new_Table ro)"
    by (simp add: unselected_uniform_def uniform_def new_Table_def)
  from calls_unselected[OF this, of cs] show ?thesis
    by (auto simp: unselected_uniform_def uniform_def)
qed

text \<open>
  Witness for C1: six calls build a grid of two rows, \<open>[2, 1]\<close> and \<open>[3, 0]\<close>, with two
  columns.
\<close>

theorem rows_have_numberOfColumns_cells_witness:
  "\<exists>s. calls [InsertRow None, InsertColumn (Some (Finite 1)), InsertRow (Some NaN), InsertColumn None,
               DeleteRow None, DeleteColumn] (new_Table False) = Inr s \<and>
       rows s = [[2, 1], [3, 0]] \<and>
       int (length [2::nat, 1]) = numberOfColumns s \<and>
       int (length [3::nat, 0]) = numberOfColumns s"
proof -
  let ?cs = "[InsertRow None, InsertColumn (Some (Finite 1)), InsertRow (Some NaN), InsertColumn None,
              DeleteRow None, DeleteColumn]"
  obtain s where s: "calls ?cs (new_Table False) = Inr s"
    and u: "\<forall>r \<in> set (rows s). int (length r) = numberOfColumns s"
    using rows_have_numberOfColumns_cells[of ?cs False] by blast
  have "\<exists>t. calls ?cs (new_Table False) = Inr t \<and> rows t = [[2, 1], [3, 0]]"
    by (simp add: eval_defs)
  with s have "rows s = [[2, 1], [3, 0]]" by auto
  with s u show ?thesis by auto
qed

text \<open>
  Remark. The sequences of C1 never select a cell. A focus event among the calls does, and
  the selection survives \<^verbatim>\<open>deleteRow\<close>: in \<open>stale_deleted_twice\<close> the selected cell \<open>1\<close>
  keeps the index 1 in its detached row, the second \<^verbatim>\<open>deleteColumn()\<close> decrements the
  counter to 0 and then raises \<^verbatim>\<open>IndexSizeError\<close> on the remaining row, which keeps its
  one cell.
\<close>

lemma stale_selection_breaks_uniformity:
  "rows stale_deleted_twice = [[2]] \<and>
   numberOfColumns stale_deleted_twice = 0 \<and>
   selectedCell stale_deleted_twice = Some 1 \<and>
   \<not> uniform stale_deleted_twice"
  by (simp add: stale_deleted_twice_def uniform_def eval_defs)

section \<open>Inserting a row\<close>

text \<open>
  Claim C2, as stated, fails: for every direction argument \<^verbatim>\<open>insertRow(direction)\<close> would
  clamp the direction to 0 or 1, insert the new row at \<open>selectedRow.rowIndex + direction\<close>
  when a row is selected, and give it exactly \<open>numberOfColumns\<close> cells. The clamp maps
  \<^verbatim>\<open>NaN\<close> to \<^verbatim>\<open>NaN\<close> and the fraction \<open>1/2\<close> to itself. In the grid with the rows \<open>[1]\<close>
  and \<open>[0]\<close> and the cell of the second row selected, \<^verbatim>\<open>insertRow(NaN)\<close> computes the
  index \<^verbatim>\<open>NaN\<close>, which the table takes as 0: the new row is the first one, neither before
  nor after the selected row. And in the state \<open>negative_columns\<close> the counter
  \<open>numberOfColumns\<close> is \<open>-1\<close>, and the new row has no cell.
\<close>

theorem insertRow_NaN_and_negative_counter:
  "clamp_direction (Some NaN) = NaN \<and>
   clamp_direction (Some (Finite (1 / 2))) = Finite (1 / 2) \<and>
   rows focused_2x1 = [[1], [0]] \<and>
   selectedCell focused_2x1 = Some 0 \<and>
   selectedRow focused_2x1 = Some (Attached 1) \<and>
   fst (insertRow (Some NaN) focused_2x1) = Inr (Attached 0) \<and>
   rows (snd (insertRow (Some NaN) focused_2x1)) = [[2], [1], [0]] \<and>
   numberOfColumns negative_columns = -1 \<and>
   rows negative_columns = [[]] \<and>
   fst (insertRow None negative_columns) = Inr (Attached 0) \<and>
   rows (snd (insertRow None negative_columns)) = [[], []]"
  by (simp add: focused_2x1_def negative_columns_def eval_defs)

text \<open>
  Claim C2, amended. For every direction argument, \<^verbatim>\<open>insertRow(direction)\<close> returns
  without an exception, inserts one new row into the grid, populates it with
  \<open>numberOfColumns\<close> new empty editable cells (with none when the counter is negative),
  increments \<open>numberOfRows\<close> by one and returns the new row. For a direction that stands
  for \<open>d\<close>, 0 or 1 (no argument or a number that is at most 0 for 0, a number that is at
  least 1 for 1), the clamped direction is \<open>d\<close> and the new row is inserted at the index
  \<open>selectedRow.rowIndex + d\<close> when a row is selected and at position 0 otherwise; the
  index \<open>-1\<close> (the selected row has left the table, \<open>d\<close> is 0) is the end of the table. So
  without a selected cell the position is 0, and with the selected cell in the row at
  position \<open>i\<close> of a grid of pairwise distinct cells it is \<open>i + d\<close>. For \<^verbatim>\<open>NaN\<close> the
  position is 0.
\<close>

theorem insertRow_inserts_filled_row:
  fixes s :: table and direction :: "jsnum option" and d :: int
  defines "s' \<equiv> snd (insertRow direction s)"
  defines "new \<equiv> [fresh s..<fresh s + nat (numberOfColumns s)]"
  defines "index \<equiv> (case selectedRow s of Some r \<Rightarrow> rowIndex r + d | None \<Rightarrow> 0)"
  defines "pos \<equiv> (if index = -1 then length (rows s) else nat index)"
  shows "(\<exists>row. fst (insertRow direction s) = Inr (Attached row) \<and>
               row \<le> length (rows s) \<and>
               rows s' = take row (rows s) @ new # drop row (rows s)) \<and>
         length new = nat (numberOfColumns s) \<and>
         (\<forall>c \<in> set new. tds s' c = empty_editable_cell (readOnly s)) \<and>
         numberOfRows s' = numberOfRows s + 1 \<and>
         numberOfColumns s' = numberOfColumns s \<and>
         (clamped direction = Some d \<longrightarrow>
            clamp_direction direction = Finite (of_int d) \<and>
            d \<in> {0, 1} \<and>
            fst (insertRow direction s) = Inr (Attached pos) \<and>
            (selectedCell s = None \<longrightarrow> pos = 0) \<and>
            (\<forall>c i k. selectedCell s = Some c \<and> distinct (concat (rows s)) \<and>
                     i < length (rows s) \<and> k < length (rows s ! i) \<and> rows s ! i ! k = c
                     \<longrightarrow> pos = i + nat d)) \<and>
         (direction = Some NaN \<longrightarrow> fst (insertRow direction s) = Inr (Attached 0))"
proof -
  let ?row = "insert_pos (insertRow_index direction s) (rows s)"
  have le: "?row \<le> length (rows s)"
    using insertRow_index_bounds[of direction s] by (auto simp: insert_pos_def)
  have ret: "fst (insertRow direction s) = Inr (Attached ?row)"
    by (simp add: insertRow_eq)
  have rs: "rows s' = take ?row (rows s) @ new # drop ?row (rows s)"
    by (simp add: s'_def new_def insertRow_rows)
  have cells: "\<forall>c \<in> set new. tds s' c = empty_editable_cell (readOnly s)"
    by (simp add: new_def s'_def insertRow_eq with_cells_def)
  have counters: "numberOfRows s' = numberOfRows s + 1" "numberOfColumns s' = numberOfColumns s"
    by (simp_all add: s'_def insertRow_eq)
  have clamped: "clamp_direction direction = Finite (of_int d) \<and>
      d \<in> {0, 1} \<and>
      fst (insertRow direction s) = Inr (Attached pos) \<and>
      (selectedCell s = None \<longrightarrow> pos = 0) \<and>
      (\<forall>c i k. selectedCell s = Some c \<and> distinct (concat (rows s)) \<and>
               i < length (rows s) \<and> k < length (rows s ! i) \<and> rows s ! i ! k = c
               \<longrightarrow> pos = i + nat d)"
    if d: "clamped direction = Some d"
  proof -
    have c: "clamp_direction direction = Finite (of_int d)" and d01: "d = 0 \<or> d = 1"
      using clamped_clamp[OF d] by auto
    have "insertRow_index direction s = index"
      by (simp add: insertRow_index_clamped[OF d] index_def)
    then have row: "?row = pos" by (simp add: insert_pos_def pos_def)
    have none: "pos = 0" if "selectedCell s = None"
      using that by (simp add: pos_def index_def selectedRow_def get_selectedCell_def)
    have some: "pos = i + nat d"
      if "selectedCell s = Some c" "distinct (concat (rows s))" "i < length (rows s)"
        "k < length (rows s ! i)" "rows s ! i ! k = c" for c i k
    proof -
      have "selectedRow s = Some (Attached i)"
        using located(1)[OF that(2-5)] that(1) by (simp add: selectedRow_def get_selectedCell_def)
      then show ?thesis using d01 by (auto simp: pos_def index_def nat_add_distrib)
    qed
    from c d01 ret row none some show ?thesis by auto
  qed
  have nan: "fst (insertRow direction s) = Inr (Attached 0)" if "direction = Some NaN"
    using that ret by (simp add: index_NaN insert_pos_def)
  from le ret rs cells counters clamped nan show ?thesis
    by (simp add: new_def) blast
qed

text \<open>
  Witness for C2: in the grid with the rows \<open>[1]\<close> and \<open>[0]\<close>, whose second row has the
  selected cell, \<^verbatim>\<open>insertRow(7)\<close> puts the new row, with the one new cell \<open>2\<close>, at position
  2, after the selected row, and \<^verbatim>\<open>insertRow(-3)\<close> at position 1, before it.
\<close>

theorem insertRow_inserts_filled_row_witness:
  "clamped (Some (Finite 7)) = Some 1 \<and>
   clamped (Some (Finite (- 3))) = Some 0 \<and>
   selectedCell focused_2x1 = Some 0 \<and>
   rows focused_2x1 = [[1], [0]] \<and>
   numberOfColumns focused_2x1 = 1 \<and>
   fst (insertRow (Some (Finite 7)) focused_2x1) = Inr (Attached 2) \<and>
   rows (snd (insertRow (Some (Finite 7)) focused_2x1)) = [[1], [0], [2]] \<and>
   fst (insertRow (Some (Finite (- 3))) focused_2x1) = Inr (Attached 1) \<and>
   rows (snd (insertRow (Some (Finite (- 3))) focused_2x1)) = [[1], [2], [0]] \<and>
   tds (snd (insertRow (Some (Finite 7)) focused_2x1)) 2 = empty_editable_cell False \<and>
   numberOfRows (snd (insertRow (Some (Finite 7)) focused_2x1)) = 3"
proof -
  have ev: "clamped (Some (Finite 7)) = Some 1 \<and>
      clamped (Some (Finite (- 3))) = Some 0 \<and>
      selectedCell focused_2x1 = Some 0 \<and>
      rows focused_2x1 = [[1], [0]] \<and>
      numberOfColumns focused_2x1 = 1 \<and>
      fst (insertRow (Some (Finite 7)) focused_2x1) = Inr (Attached 2) \<and>
      rows (snd (insertRow (Some (Finite 7)) focused_2x1)) = [[1], [0], [2]] \<and>
      fst (insertRow (Some (Finite (- 3))) focused_2x1) = Inr (Attached 1) \<and>
      rows (snd (insertRow (Some (Finite (- 3))) focused_2x1)) = [[1], [2], [0]] \<and>
      tds (snd (insertRow (Some (Finite 7)) focused_2x1)) 2 = empty_editable_cell False \<and>
      numberOfRows (snd (insertRow (Some (Finite 7)) focused_2x1)) = 3"
    by (simp add: focused_2x1_def eval_defs)
  from insertRow_inserts_filled_row[where s = focused_2x1 and direction = "Some (Finite 7)"
      and d = 1]
    insertRow_inserts_filled_row[where s = focused_2x1 and direction = "Some (Finite (- 3))"
      and d = 0]
    ev
  show ?thesis by blast
qed

section \<open>Inserting a column\<close>

text \<open>The loop of \<^verbatim>\<open>insertColumn\<close> keeps the counters and the number of rows, also when it raises.\<close>

lemma insertColumn_loop_counters:
  "numberOfColumns (snd (insertColumn_loop index i s)) = numberOfColumns s \<and>
   numberOfRows (snd (insertColumn_loop index i s)) = numberOfRows s \<and>
   length (rows (snd (insertColumn_loop index i s))) = length (rows s)"
proof (induction index i s rule: insertColumn_loop.induct)
  case (1 index i s)
  show ?case
  proof (cases "i < length (rows s)")
    case False
    then show ?thesis by (simp add: insertColumn_loop.simps[of index i s])
  next
    case True
    obtain r s1 where r: "row_insertCell i index s = (r, s1)" by fastforce
    have s1: "numberOfColumns s1 = numberOfColumns s" "numberOfRows s1 = numberOfRows s"
      "length (rows s1) = length (rows s)"
      using r by (auto simp: row_insertCell_def split: if_splits sum.splits prod.splits)
    show ?thesis
    proof (cases r)
      case (Inl e)
      then show ?thesis using True r s1 by (simp add: insertColumn_loop.simps[of index i s])
    next
      case (Inr c)
      have "insertColumn_loop index i s = insertColumn_loop index (Suc i) (fillCell c s1)"
        using True r Inr by (simp add: insertColumn_loop.simps[of index i s])
      then show ?thesis using "1.IH"[OF True r[symmetric] Inr] s1
        by (simp add: fillCell_def td_classList_add_def Let_def)
    qed
  qed
qed

lemma insertColumn_counters:
  "numberOfColumns (snd (insertColumn d s)) = numberOfColumns s + 1 \<and>
   numberOfRows (snd (insertColumn d s)) = numberOfRows s \<and>
   length (rows (snd (insertColumn d s))) = length (rows s)"
  using insertColumn_loop_counters[of "insertColumn_index d s" 0
      "s\<lparr>numberOfColumns := numberOfColumns s + 1\<rparr>"]
  by (simp add: insertColumn_def Let_def insertColumn_index_def[symmetric])

text \<open>
  Claim C3, as stated, fails: for every direction argument \<^verbatim>\<open>insertColumn(direction)\<close>
  would clamp the direction to 0 or 1 and insert one new cell at the insertion index into
  every existing row. The clamp maps \<^verbatim>\<open>NaN\<close> to \<^verbatim>\<open>NaN\<close> and the fraction \<open>1/2\<close> to itself.
  And in the state \<open>stale_1x0\<close> the selected cell \<open>0\<close> sits at index 0 of a row that has left
  the table, the one row of the table has no cell, and \<^verbatim>\<open>insertColumn(1)\<close> computes the
  index 1: \<^verbatim>\<open>insertCell(1)\<close> raises \<^verbatim>\<open>IndexSizeError\<close>, no cell is inserted, and the counter
  has been incremented all the same.
\<close>

theorem insertColumn_raises_on_short_row:
  "clamp_direction (Some NaN) = NaN \<and>
   clamp_direction (Some (Finite (1 / 2))) = Finite (1 / 2) \<and>
   selectedCell stale_1x0 = Some 0 \<and>
   cellIndex stale_1x0 0 = 0 \<and>
   rows stale_1x0 = [[]] \<and>
   numberOfColumns stale_1x0 = 0 \<and>
   fst (insertColumn (Some (Finite 1)) stale_1x0) = Inl IndexSizeError \<and>
   rows (snd (insertColumn (Some (Finite 1)) stale_1x0)) = [[]] \<and>
   numberOfColumns (snd (insertColumn (Some (Finite 1)) stale_1x0)) = 1"
  by (simp add: stale_1x0_def eval_defs)

text \<open>
  Claim C3, amended. For every direction argument, \<^verbatim>\<open>insertColumn(direction)\<close>
  increments \<open>numberOfColumns\<close> by one and keeps the number of rows. For a direction that
  stands for \<open>d\<close>, 0 or 1 (no argument or a number that is at most 0 for 0, a number that
  is at least 1 for 1), the clamped direction is \<open>d\<close> and the insertion index is
  \<open>selectedCell.cellIndex + d\<close> when a cell is selected and 0 otherwise; with the selected
  cell at column \<open>k\<close> of a row of a grid of pairwise distinct cells it is \<open>k + d\<close>. When no
  row of the grid has fewer cells than that index, the call returns without an exception
  and has inserted one new empty editable cell at that index into every existing row (at
  the end for the index \<open>-1\<close>, which a selected cell without a row gives with \<open>d = 0\<close>).
\<close>

theorem insertColumn_inserts_cell_in_every_row:
  fixes s :: table and direction :: "jsnum option" and d :: int
  defines "s' \<equiv> snd (insertColumn direction s)"
  defines "index \<equiv> (case selectedCell s of Some c \<Rightarrow> cellIndex s c + d | None \<Rightarrow> 0)"
  shows "numberOfColumns s' = numberOfColumns s + 1 \<and>
         numberOfRows s' = numberOfRows s \<and>
         length (rows s') = length (rows s) \<and>
         (clamped direction = Some d \<longrightarrow>
            clamp_direction direction = Finite (of_int d) \<and>
            d \<in> {0, 1} \<and>
            (\<forall>c i k. selectedCell s = Some c \<and> distinct (concat (rows s)) \<and>
                     i < length (rows s) \<and> k < length (rows s ! i) \<and> rows s ! i ! k = c
                     \<longrightarrow> index = int k + d) \<and>
            ((\<forall>r \<in> set (rows s). index \<le> int (length r)) \<longrightarrow>
               fst (insertColumn direction s) = Inr () \<and>
               (\<forall>j < length (rows s).
                  rows s' ! j =
                    (if index = -1 then rows s ! j @ [fresh s + j]
                     else take (nat index) (rows s ! j) @
                          (fresh s + j) # drop (nat index) (rows s ! j)) \<and>
                  tds s' (fresh s + j) = empty_editable_cell (readOnly s))))"
proof -
  have counters: "numberOfColumns s' = numberOfColumns s + 1 \<and>
      numberOfRows s' = numberOfRows s \<and> length (rows s') = length (rows s)"
    unfolding s'_def by (rule insertColumn_counters)
  have clamped: "clamp_direction direction = Finite (of_int d) \<and>
      d \<in> {0, 1} \<and>
      (\<forall>c i k. selectedCell s = Some c \<and> distinct (concat (rows s)) \<and>
               i < length (rows s) \<and> k < length (rows s ! i) \<and> rows s ! i ! k = c
               \<longrightarrow> index = int k + d) \<and>
      ((\<forall>r \<in> set (rows s). index \<le> int (length r)) \<longrightarrow>
         fst (insertColumn direction s) = Inr () \<and>
         (\<forall>j < length (rows s).
            rows s' ! j =
              (if index = -1 then rows s ! j @ [fresh s + j]
               else take (nat index) (rows s ! j) @
                    (fresh s + j) # drop (nat index) (rows s ! j)) \<and>
            tds s' (fresh s + j) = empty_editable_cell (readOnly s)))"
    if d: "clamped direction = Some d"
  proof -
    have c: "clamp_direction direction = Finite (of_int d)" and d01: "d \<in> {0, 1}"
      using clamped_clamp[OF d] by auto
    have index: "insertColumn_index direction s = index"
      by (simp add: insertColumn_index_clamped[OF d] index_def)
    have at: "index = int k + d"
      if "selectedCell s = Some c" "distinct (concat (rows s))" "i < length (rows s)"
        "k < length (rows s ! i)" "rows s ! i ! k = c" for c i k
      using located(2)[OF that(2-5)] that(1) by (simp add: index_def)
    have ins: "fst (insertColumn direction s) = Inr () \<and>
        (\<forall>j < length (rows s).
           rows s' ! j =
             (if index = -1 then rows s ! j @ [fresh s + j]
              else take (nat index) (rows s ! j) @
                   (fresh s + j) # drop (nat index) (rows s ! j)) \<and>
           tds s' (fresh s + j) = empty_editable_cell (readOnly s))"
      if fits: "\<forall>r \<in> set (rows s). index \<le> int (length r)"
    proof -
      have eq: "insertColumn direction s =
          (Inr (), with_column (s\<lparr>numberOfColumns := numberOfColumns s + 1\<rparr>) index 0)"
        using fits insertColumn_eq[of s direction] by (simp add: index)
      have row: "rows s' ! j =
          (if index = -1 then rows s ! j @ [fresh s + j]
           else take (nat index) (rows s ! j) @ (fresh s + j) # drop (nat index) (rows s ! j))"
        if "j < length (rows s)" for j
        using that by (simp add: s'_def eq with_column_nth insert_at_def insert_pos_def)
      have cell: "tds s' (fresh s + j) = empty_editable_cell (readOnly s)"
        if "j < length (rows s)" for j
        using that with_column_tds[of j "s\<lparr>numberOfColumns := numberOfColumns s + 1\<rparr>" index]
        by (simp add: s'_def eq)
      from row cell show ?thesis by (simp add: eq)
    qed
    from c d01 at ins show ?thesis by blast
  qed
  from counters clamped show ?thesis by blast
qed

text \<open>
  Witness for C3, with the two scenarios of the specification. In the grid of two rows
  and two columns with the second cell of the first row selected, \<^verbatim>\<open>insertColumn(0)\<close> puts
  the new cells \<open>4\<close> and \<open>5\<close> at index 1 of the two rows, and the selected cell moves to
  index 2. In the same grid without a selection, \<^verbatim>\<open>insertColumn(1)\<close> puts them at index 0.
  Either way the grid has two rows and three columns then.
\<close>

theorem insertColumn_inserts_cell_in_every_row_witness:
  "clamped (Some (Finite 0)) = Some 0 \<and>
   clamped (Some (Finite 1)) = Some 1 \<and>
   rows focused_2x2 = [[2, 3], [0, 1]] \<and>
   selectedCell focused_2x2 = Some 3 \<and>
   fst (insertColumn (Some (Finite 0)) focused_2x2) = Inr () \<and>
   rows (snd (insertColumn (Some (Finite 0)) focused_2x2)) = [[2, 4, 3], [0, 5, 1]] \<and>
   cellIndex (snd (insertColumn (Some (Finite 0)) focused_2x2)) 3 = 2 \<and>
   numberOfColumns (snd (insertColumn (Some (Finite 0)) focused_2x2)) = 3 \<and>
   rows grid_2x2 = [[2, 3], [0, 1]] \<and>
   selectedCell grid_2x2 = None \<and>
   fst (insertColumn (Some (Finite 1)) grid_2x2) = Inr () \<and>
   rows (snd (insertColumn (Some (Finite 1)) grid_2x2)) = [[4, 2, 3], [5, 0, 1]] \<and>
   tds (snd (insertColumn (Some (Finite 1)) grid_2x2)) 4 = empty_editable_cell False \<and>
   tds (snd (insertColumn (Some (Finite 1)) grid_2x2)) 5 = empty_editable_cell False \<and>
   numberOfColumns (snd (insertColumn (Some (Finite 1)) grid_2x2)) = 3 \<and>
   numberOfRows (snd (insertColumn (Some (Finite 1)) grid_2x2)) = 2"
proof -
  have ev: "clamped (Some (Finite 0)) = Some 0 \<and>
      clamped (Some (Finite 1)) = Some 1 \<and>
      rows focused_2x2 = [[2, 3], [0, 1]] \<and>
      selectedCell focused_2x2 = Some 3 \<and>
      fst (insertColumn (Some (Finite 0)) focused_2x2) = Inr () \<and>
      rows (snd (insertColumn (Some (Finite 0)) focused_2x2)) = [[2, 4, 3], [0, 5, 1]] \<and>
      cellIndex (snd (insertColumn (Some (Finite 0)) focused_2x2)) 3 = 2 \<and>
      numberOfColumns (snd (insertColumn (Some (Finite 0)) focused_2x2)) = 3 \<and>
      rows grid_2x2 = [[2, 3], [0, 1]] \<and>
      selectedCell grid_2x2 = None \<and>
      fst (insertColumn (Some (Finite 1)) grid_2x2) = Inr () \<and>
      rows (snd (insertColumn (Some (Finite 1)) grid_2x2)) = [[4, 2, 3], [5, 0, 1]] \<and>
      tds (snd (insertColumn (Some (Finite 1)) grid_2x2)) 4 = empty_editable_cell False \<and>
      tds (snd (insertColumn (Some (Finite 1)) grid_2x2)) 5 = empty_editable_cell False \<and>
      numberOfColumns (snd (insertColumn (Some (Finite 1)) grid_2x2)) = 3 \<and>
      numberOfRows (snd (insertColumn (Some (Finite 1)) grid_2x2)) = 2"
    by (simp add: focused_2x2_def grid_2x2_def eval_defs)
  from insertColumn_inserts_cell_in_every_row[where s = focused_2x2
      and direction = "Some (Finite 0)" and d = 0]
    insertColumn_inserts_cell_in_every_row[where s = grid_2x2
      and direction = "Some (Finite 1)" and d = 1]
    ev
  show ?thesis by blast
qed

section \<open>The convenience methods\<close>

text \<open>
  Claim C4, as stated, fails: \<^verbatim>\<open>insertRowBefore\<close> would pass the direction 1 to
  \<^verbatim>\<open>insertRow\<close> and \<^verbatim>\<open>insertRowAfter\<close> the direction 0. In the grid of two rows with the
  cell of the second row selected, \<^verbatim>\<open>insertRowBefore()\<close> puts the new row before the
  selected one, where \<^verbatim>\<open>insertRow(0)\<close> puts it, and \<^verbatim>\<open>insertRowAfter()\<close> after it, where
  \<^verbatim>\<open>insertRow(1)\<close> puts it.
\<close>

theorem insertRowBefore_is_not_insertRow_1:
  "rows focused_2x1 = [[1], [0]] \<and>
   selectedCell focused_2x1 = Some 0 \<and>
   rows (snd (insertRowBefore focused_2x1)) = [[1], [2], [0]] \<and>
   rows (snd (insertRow (Some (Finite 1)) focused_2x1)) = [[1], [0], [2]] \<and>
   rows (snd (insertRowAfter focused_2x1)) = [[1], [0], [2]] \<and>
   rows (snd (insertRow (Some (Finite 0)) focused_2x1)) = [[1], [2], [0]] \<and>
   snd (insertRowBefore focused_2x1) \<noteq> snd (insertRow (Some (Finite 1)) focused_2x1) \<and>
   snd (insertRowAfter focused_2x1) \<noteq> snd (insertRow (Some (Finite 0)) focused_2x1)"
proof -
  have r: "rows focused_2x1 = [[1], [0]] \<and>
      selectedCell focused_2x1 = Some 0 \<and>
      rows (snd (insertRowBefore focused_2x1)) = [[1], [2], [0]] \<and>
      rows (snd (insertRow (Some (Finite 1)) focused_2x1)) = [[1], [0], [2]] \<and>
      rows (snd (insertRowAfter focused_2x1)) = [[1], [0], [2]] \<and>
      rows (snd (insertRow (Some (Finite 0)) focused_2x1)) = [[1], [2], [0]]"
    by (simp add: focused_2x1_def eval_defs)
  then have "rows (snd (insertRowBefore focused_2x1)) \<noteq>
        rows (snd (insertRow (Some (Finite 1)) focused_2x1))"
    and "rows (snd (insertRowAfter focused_2x1)) \<noteq>
        rows (snd (insertRow (Some (Finite 0)) focused_2x1))"
    by simp_all
  then have "snd (insertRowBefore focused_2x1) \<noteq> snd (insertRow (Some (Finite 1)) focused_2x1)"
    and "snd (insertRowAfter focused_2x1) \<noteq> snd (insertRow (Some (Finite 0)) focused_2x1)"
    by auto
  with r show ?thesis by simp
qed

text \<open>
  Claim C4, amended. The row convenience methods have the direction semantics of their
  column counterparts: \<^verbatim>\<open>insertColumnBefore\<close> and \<^verbatim>\<open>insertRowBefore\<close> call
  \<^verbatim>\<open>insertColumn\<close> and \<^verbatim>\<open>insertRow\<close> without an argument, which is the direction 0
  (before); \<^verbatim>\<open>insertColumnAfter\<close> and \<^verbatim>\<open>insertRowAfter\<close> pass the direction 1 (after).
  The row methods drop the row that \<^verbatim>\<open>insertRow\<close> returns.
\<close>

theorem convenience_methods_directions:
  "insertColumnBefore s = insertColumn (Some (Finite 0)) s \<and>
   insertColumnAfter s = insertColumn (Some (Finite 1)) s \<and>
   insertRowBefore s = (Inr (), snd (insertRow (Some (Finite 0)) s)) \<and>
   insertRowAfter s = (Inr (), snd (insertRow (Some (Finite 1)) s))"
proof -
  have c: "clamp_direction None = clamp_direction (Some (Finite 0))"
    by (simp add: clamp_direction_def)
  have col: "insertColumn None s = insertColumn (Some (Finite 0)) s"
    by (simp add: insertColumn_def c)
  have row: "insertRow None s = insertRow (Some (Finite 0)) s"
    by (simp add: insertRow_def c)
  have returns: "map_sum id (\<lambda>_. ()) (fst (insertRow d s)) = Inr ()" for d
    by (simp add: insertRow_eq)
  have before: "insertRowBefore s = (Inr (), snd (insertRow (Some (Finite 0)) s))"
    using returns[of "Some (Finite 0)"] by (auto simp: insertRowBefore_def row split: prod.splits)
  have after: "insertRowAfter s = (Inr (), snd (insertRow (Some (Finite 1)) s))"
    using returns[of "Some (Finite 1)"] by (auto simp: insertRowAfter_def split: prod.splits)
  show ?thesis
    using col before after by (simp add: insertColumnBefore_def insertColumnAfter_def)
qed

section \<open>The highlight\<close>

text \<open>
  Claim C5: at most one cell carries the highlight marker at any time, across every public
  operation and every event handler; when the selection moves to a new cell, the marker
  is taken off the previously highlighted cell before the new cell is highlighted. The
  setter does so, but \<^verbatim>\<open>_focusEditField\<close> writes the field \<^verbatim>\<open>_selectedCell\<close> directly.
  In a row of the two cells \<open>0\<close> and \<open>1\<close>: the host assigns cell \<open>0\<close> to \<^verbatim>\<open>selectedCell\<close>,
  the focus enters cell \<open>1\<close>, which becomes the selected cell while the marker stays on
  cell \<open>0\<close>; the host assigns cell \<open>1\<close>, and both cells carry the marker.
\<close>

theorem focus_leaves_highlight_behind:
  "rows assigned_again = [[0, 1]] \<and>
   selectedCell assigned_then_focused = Some 1 \<and>
   highlighted assigned_then_focused = [0] \<and>
   selectedCell assigned_again = Some 1 \<and>
   highlighted assigned_again = [0, 1]"
  by (simp add: assigned_again_def assigned_then_focused_def eval_defs)

section \<open>Focus leaving a cell\<close>

text \<open>
  Claim C6: whenever focus leaves an editable area, the controller clears the selected
  cell; a focus-out handler is wired up. The class has the handler \<^verbatim>\<open>_blurEditField\<close>,
  which would clear the selection, but \<^verbatim>\<open>_attachEvents\<close> registers no listener for
  \<^verbatim>\<open>blur\<close> or \<^verbatim>\<open>focusout\<close>: after the focus has entered the cell of a grid of one cell,
  the cell is still selected when the focus has left its input field.
\<close>

theorem blur_keeps_selection:
  "selectedCell focused_1x1 = Some 0 \<and>
   classList_contains focused_1x1 (Inner 0 [0, 0]) CSS_inputField \<and>
   selectedCell (snd (fire [] (Blur (Inner 0 [0, 0])) focused_1x1)) = Some 0 \<and>
   selectedCell (snd (fire [] (FocusOut (Inner 0 [0, 0])) focused_1x1)) = Some 0 \<and>
   selectedCell (blurEditField (Inner 0 [0, 0]) focused_1x1) = None"
  by (simp add: focused_1x1_def eval_defs)

section \<open>Deleting without a selection\<close>

text \<open>
  Claim C7. \<^verbatim>\<open>deleteColumn\<close> when no cell is selected, and \<^verbatim>\<open>deleteRow\<close> (with any
  argument) when no row is selected, return without an exception and leave the whole
  state as it is: the two counters and the grid.
\<close>

theorem delete_without_selection:
  "(selectedCell s = None \<longrightarrow> deleteColumn s = (Inr (), s)) \<and>
   (selectedRow s = None \<longrightarrow> deleteRow index s = (Inr (), s))"
  by (simp add: deleteColumn_def deleteRow_def get_selectedCell_def)

text \<open>
  Witness for C7: a new controller has no selected cell; and a selected cell that has been
  removed from its row has no row.
\<close>

theorem delete_without_selection_witness:
  "selectedCell (new_Table False) = None \<and>
   deleteColumn (new_Table False) = (Inr (), new_Table False) \<and>
   selectedCell orphan_selected = Some 0 \<and>
   selectedRow orphan_selected = None \<and>
   deleteRow None orphan_selected = (Inr (), orphan_selected)"
proof -
  have a: "selectedCell (new_Table False) = None" by (simp add: new_Table_def)
  have b: "selectedCell orphan_selected = Some 0 \<and> selectedRow orphan_selected = None"
    by (simp add: orphan_selected_def eval_defs)
  show ?thesis
    using a b delete_without_selection[of "new_Table False" None]
      delete_without_selection[of orphan_selected None]
    by simp
qed

section \<open>Ctrl+Enter\<close>

text \<open>
  Claim C8: Ctrl+Enter inside the input field of a cell inserts a row directly after the
  current one, moves the focus and the selection to the first cell of the new row, and
  dispatches a bubbling custom event with a \<^verbatim>\<open>side\<close> field to the host. The handler does
  the first two, and then reads the identifier \<^verbatim>\<open>side\<close>, which nothing in the module
  binds: on a page without a global of that name the read is a \<^verbatim>\<open>ReferenceError\<close>, and no
  event is dispatched.
\<close>

theorem ctrl_enter_dispatches_nothing:
  "rows focused_1x1 = [[0]] \<and>
   selectedCell focused_1x1 = Some 0 \<and>
   fst (fire [] (Keydown ctrl_enter) focused_1x1) = Some ReferenceError \<and>
   rows (snd (fire [] (Keydown ctrl_enter) focused_1x1)) = [[0], [1]] \<and>
   numberOfRows (snd (fire [] (Keydown ctrl_enter) focused_1x1)) = 2 \<and>
   selectedCell (snd (fire [] (Keydown ctrl_enter) focused_1x1)) = Some 1 \<and>
   activeElement (snd (fire [] (Keydown ctrl_enter) focused_1x1)) = Some (Inner 1 [0, 0]) \<and>
   dispatched (snd (fire [] (Keydown ctrl_enter) focused_1x1)) = []"
  by (simp add: focused_1x1_def ctrl_enter_def eval_defs)

section \<open>Deleting a row\<close>

text \<open>
  Claim C9, as stated, fails: when a row is selected, the row removed would always be the
  one that contains the selected cell. In the state \<open>stale_1x1\<close> the selected cell \<open>0\<close> is
  in a row that has left the table; that row is still the selected row, its \<^verbatim>\<open>rowIndex\<close>
  is \<open>-1\<close>, and \<^verbatim>\<open>deleteRow\<close> removes the last row of the table, which holds cell \<open>1\<close>.
\<close>

theorem deleteRow_removes_other_row:
  "selectedCell stale_1x1 = Some 0 \<and>
   selectedRow stale_1x1 = Some (Detached 0) \<and>
   row_cells stale_1x1 (Detached 0) = [0] \<and>
   rows stale_1x1 = [[1]] \<and>
   fst (deleteRow None stale_1x1) = Inr () \<and>
   rows (snd (deleteRow None stale_1x1)) = [] \<and>
   numberOfRows (snd (deleteRow None stale_1x1)) = 0"
  by (simp add: stale_1x1_def eval_defs)

text \<open>
  Claim C9, amended. \<^verbatim>\<open>deleteRow\<close> ignores its index parameter: any two arguments give
  the same result. When the selected row is a row of the table, the row removed is that
  row, the one that contains the selected cell, at its current position, and
  \<open>numberOfRows\<close> is decremented. (The focus leaves the table with the row, if it was in
  it; nothing else changes.)
\<close>

theorem deleteRow_removes_selected_row:
  "deleteRow i s = deleteRow j s \<and>
   (selectedRow s = Some (Attached p) \<longrightarrow>
      p < length (rows s) \<and>
      (\<exists>c. selectedCell s = Some c \<and> c \<in> set (rows s ! p)) \<and>
      deleteRow i s =
        (Inr (), s\<lparr>rows := take p (rows s) @ drop (Suc p) (rows s),
                    detached := detached s @ [rows s ! p],
                    activeElement :=
                      (if focus_in s (rows s ! p) then None else activeElement s),
                    numberOfRows := numberOfRows s - 1\<rparr>))"
proof -
  have same: "deleteRow i s = deleteRow j s" by (simp add: deleteRow_def)
  have sel: "p < length (rows s) \<and>
      (\<exists>c. selectedCell s = Some c \<and> c \<in> set (rows s ! p)) \<and>
      deleteRow i s =
        (Inr (), s\<lparr>rows := take p (rows s) @ drop (Suc p) (rows s),
                    detached := detached s @ [rows s ! p],
                    activeElement :=
                      (if focus_in s (rows s ! p) then None else activeElement s),
                    numberOfRows := numberOfRows s - 1\<rparr>)"
    if r: "selectedRow s = Some (Attached p)"
  proof -
    from r obtain c where c: "selectedCell s = Some c" and tr: "closest_tr s c = Some (Attached p)"
      by (auto simp: selectedRow_def get_selectedCell_def split: option.splits)
    from closest_tr_Attached[OF tr] have p: "p < length (rows s)" and m: "c \<in> set (rows s ! p)"
      by auto
    have del: "dom_delete (int p) (rows s) =
        Inr (Some (rows s ! p), take p (rows s) @ drop (Suc p) (rows s))"
      using p by (simp add: dom_delete_def)
    have focus: "focus_in (s\<lparr>rows := a, detached := b\<rparr>) cs = focus_in s cs" for a b cs
      by (simp add: focus_in_def)
    have "deleteRow i s =
        (Inr (), s\<lparr>rows := take p (rows s) @ drop (Suc p) (rows s),
                    detached := detached s @ [rows s ! p],
                    activeElement :=
                      (if focus_in s (rows s ! p) then None else activeElement s),
                    numberOfRows := numberOfRows s - 1\<rparr>)"
      using r del by (cases "focus_in s (rows s ! p)")
        (simp_all add: deleteRow_def blur_removed_def focus)
    with p m c show ?thesis by simp
  qed
  from same sel show ?thesis by blast
qed

text \<open>
  Witness for C9: in the grid with the rows \<open>[1]\<close> and \<open>[0]\<close> and cell \<open>0\<close> selected and
  focused, \<^verbatim>\<open>deleteRow(5)\<close> removes the second row; the cell stays selected and loses the
  focus.
\<close>

theorem deleteRow_removes_selected_row_witness:
  "selectedRow focused_2x1 = Some (Attached 1) \<and>
   rows focused_2x1 = [[1], [0]] \<and>
   selectedCell focused_2x1 = Some 0 \<and>
   activeElement focused_2x1 = Some (Inner 0 [0, 0]) \<and>
   deleteRow (Some (Finite 5)) focused_2x1 = deleteRow None focused_2x1 \<and>
   rows (snd (deleteRow (Some (Finite 5)) focused_2x1)) = [[1]] \<and>
   detached (snd (deleteRow (Some (Finite 5)) focused_2x1)) = [[0]] \<and>
   activeElement (snd (deleteRow (Some (Finite 5)) focused_2x1)) = None \<and>
   selectedCell (snd (deleteRow (Some (Finite 5)) focused_2x1)) = Some 0 \<and>
   numberOfRows (snd (deleteRow (Some (Finite 5)) focused_2x1)) = 1"
proof -
  have a: "selectedRow focused_2x1 = Some (Attached 1) \<and> rows focused_2x1 = [[1], [0]] \<and>
      selectedCell focused_2x1 = Some 0 \<and> detached focused_2x1 = [] \<and>
      numberOfRows focused_2x1 = 2 \<and> activeElement focused_2x1 = Some (Inner 0 [0, 0])"
    by (simp add: focused_2x1_def eval_defs)
  have t: "deleteRow (Some (Finite 5)) focused_2x1 = deleteRow None focused_2x1 \<and>
      (selectedRow focused_2x1 = Some (Attached 1) \<longrightarrow>
         1 < length (rows focused_2x1) \<and>
         (\<exists>c. selectedCell focused_2x1 = Some c \<and> c \<in> set (rows focused_2x1 ! 1)) \<and>
         deleteRow (Some (Finite 5)) focused_2x1 =
           (Inr (), focused_2x1\<lparr>rows := take 1 (rows focused_2x1) @ drop (Suc 1) (rows focused_2x1),
                                  detached := detached focused_2x1 @ [rows focused_2x1 ! 1],
                                  activeElement :=
                                    (if focus_in focused_2x1 (rows focused_2x1 ! 1) then None
                                     else activeElement focused_2x1),
                                  numberOfRows := numberOfRows focused_2x1 - 1\<rparr>))"
    by (rule deleteRow_removes_selected_row)
  have sel: "selectedRow focused_2x1 = Some (Attached 1)" using a by simp
  from t sel have "deleteRow (Some (Finite 5)) focused_2x1 =
      (Inr (), focused_2x1\<lparr>rows := take 1 (rows focused_2x1) @ drop (Suc 1) (rows focused_2x1),
                    detached := detached focused_2x1 @ [rows focused_2x1 ! 1],
                    activeElement :=
                      (if focus_in focused_2x1 (rows focused_2x1 ! 1) then None
                       else activeElement focused_2x1),
                    numberOfRows := numberOfRows focused_2x1 - 1\<rparr>)"
    by blast
  then have e: "snd (deleteRow (Some (Finite 5)) focused_2x1) =
      focused_2x1\<lparr>rows := take 1 (rows focused_2x1) @ drop (Suc 1) (rows focused_2x1),
                    detached := detached focused_2x1 @ [rows focused_2x1 ! 1],
                    activeElement :=
                      (if focus_in focused_2x1 (rows focused_2x1 ! 1) then None
                       else activeElement focused_2x1),
                    numberOfRows := numberOfRows focused_2x1 - 1\<rparr>"
    by simp
  have "rows (snd (deleteRow (Some (Finite 5)) focused_2x1)) = [[1]] \<and>
      detached (snd (deleteRow (Some (Finite 5)) focused_2x1)) = [[0]] \<and>
      activeElement (snd (deleteRow (Some (Finite 5)) focused_2x1)) = None \<and>
      selectedCell (snd (deleteRow (Some (Finite 5)) focused_2x1)) = Some 0 \<and>
      numberOfRows (snd (deleteRow (Some (Finite 5)) focused_2x1)) = 1"
    unfolding e using a by (simp add: focus_in_def)
  with a t show ?thesis by blast
qed

section \<open>Ctrl+Enter needs a cell\<close>

text \<open>
  Claim C10. The handler of Ctrl+Enter, \<^verbatim>\<open>_containerEnterPressed\<close>, needs a cell in the
  new row. When \<open>numberOfColumns\<close> is at least 1, the new row that \<^verbatim>\<open>insertRow(1)\<close>
  returns has a first cell, and the handler raises no \<^verbatim>\<open>TypeError\<close>. When
  \<open>numberOfColumns\<close> is 0, the new row has no cell, the call of \<^verbatim>\<open>click\<close> on its first
  cell raises a \<^verbatim>\<open>TypeError\<close>, and the handler ends there: nothing is dispatched, while
  the row is in the table and \<open>numberOfRows\<close> has been incremented.
\<close>

theorem ctrl_enter_needs_a_cell:
  "(1 \<le> numberOfColumns s \<longrightarrow>
      (\<exists>row s1 c cs. insertRow (Some (Finite 1)) s = (Inr row, s1) \<and> row_cells s1 row = c # cs) \<and>
      fst (containerEnterPressed globals event s) \<noteq> Some TypeError) \<and>
   (numberOfColumns s = 0 \<longrightarrow>
      (\<exists>row s1. insertRow (Some (Finite 1)) s = (Inr row, s1) \<and> row_cells s1 row = [] \<and>
         containerEnterPressed globals event s = (Some TypeError, s1) \<and>
         dispatched s1 = dispatched s \<and>
         numberOfRows s1 = numberOfRows s + 1 \<and>
         length (rows s1) = Suc (length (rows s))))"
proof -
  define pos where "pos = insert_pos (insertRow_index (Some (Finite 1)) s) (rows s)"
  define s1 where "s1 = snd (insertRow (Some (Finite 1)) s)"
  have le: "pos \<le> length (rows s)"
    using insertRow_index_bounds[of "Some (Finite 1)" s] by (auto simp: pos_def insert_pos_def)
  have ir: "insertRow (Some (Finite 1)) s = (Inr (Attached pos), s1)"
    by (simp add: s1_def pos_def insertRow_eq)
  have rs: "rows s1 = take pos (rows s) @
      [fresh s..<fresh s + nat (numberOfColumns s)] # drop pos (rows s)"
    by (simp add: s1_def pos_def insertRow_rows)
  have rc: "rows s1 ! pos = [fresh s..<fresh s + nat (numberOfColumns s)]"
    using le by (simp add: rs nth_append)
  have len: "length (rows s1) = Suc (length (rows s))"
    using le by (simp add: rs)
  have fields: "dispatched s1 = dispatched s" "numberOfRows s1 = numberOfRows s + 1"
    by (simp_all add: s1_def insertRow_eq)
  have some: "(\<exists>row s1 c cs. insertRow (Some (Finite 1)) s = (Inr row, s1) \<and> row_cells s1 row = c # cs) \<and>
      fst (containerEnterPressed globals event s) \<noteq> Some TypeError"
    if "1 \<le> numberOfColumns s"
  proof -
    from that have c: "rows s1 ! pos =
        fresh s # [Suc (fresh s)..<fresh s + nat (numberOfColumns s)]"
      by (simp add: rc upt_conv_Cons)
    have "fst (containerEnterPressed globals event s) \<noteq> Some TypeError"
      by (simp add: containerEnterPressed_def ir c resolve_global_def Let_def
          split: option.splits)
    moreover have "row_cells s1 (Attached pos) =
        fresh s # [Suc (fresh s)..<fresh s + nat (numberOfColumns s)]"
      using c by simp
    ultimately show ?thesis using ir by blast
  qed
  have none: "\<exists>row s1. insertRow (Some (Finite 1)) s = (Inr row, s1) \<and> row_cells s1 row = [] \<and>
         containerEnterPressed globals event s = (Some TypeError, s1) \<and>
         dispatched s1 = dispatched s \<and>
         numberOfRows s1 = numberOfRows s + 1 \<and>
         length (rows s1) = Suc (length (rows s))"
    if "numberOfColumns s = 0"
  proof -
    from that have e: "rows s1 ! pos = []" by (simp add: rc)
    have "containerEnterPressed globals event s = (Some TypeError, s1)"
      by (simp add: containerEnterPressed_def ir e)
    moreover have "row_cells s1 (Attached pos) = []" using e by simp
    ultimately show ?thesis using ir len fields by blast
  qed
  from some none show ?thesis by blast
qed

text \<open>
  Witness for C10: Ctrl+Enter in the grid of one cell gets past the first cell of the new
  row (and fails later, on \<^verbatim>\<open>side\<close>); Ctrl+Enter on a new controller, without columns,
  leaves a table of one empty row and raises the \<^verbatim>\<open>TypeError\<close>.
\<close>

theorem ctrl_enter_needs_a_cell_witness:
  "1 \<le> numberOfColumns focused_1x1 \<and>
   fst (containerEnterPressed [] ctrl_enter focused_1x1) = Some ReferenceError \<and>
   numberOfColumns (new_Table False) = 0 \<and>
   fst (containerEnterPressed [] ctrl_enter_on_wrapper (new_Table False)) = Some TypeError \<and>
   rows (snd (containerEnterPressed [] ctrl_enter_on_wrapper (new_Table False))) = [[]] \<and>
   numberOfRows (snd (containerEnterPressed [] ctrl_enter_on_wrapper (new_Table False))) = 1 \<and>
   dispatched (snd (containerEnterPressed [] ctrl_enter_on_wrapper (new_Table False))) = []"
  using ctrl_enter_needs_a_cell[of focused_1x1 "[]" ctrl_enter]
    ctrl_enter_needs_a_cell[of "new_Table False" "[]" ctrl_enter_on_wrapper]
  by (simp add: focused_1x1_def ctrl_enter_def ctrl_enter_on_wrapper_def eval_defs)

end
